theory Spec2Isabelle
  imports Complex_Main "HOL-Library.Sublist" "HOL-Library.AList"
begin

section \<open>The constrained reasoning layer of NeuroChorno (Modules/Module2/reasoning_engine.py)\<close>

text \<open>
  The development embeds the stage executor, the validators, the deterministic fallback
  generator and the stage sequencer of \<^verbatim>\<open>reasoning_engine.py\<close>.

  Scope of the embedding.
  \<^item> Python values (the payload, parsed JSON) are the datatype \<open>py\<close>; a dict is an
    association list with string keys, looked up by its first matching entry.
  \<^item> A Python \<^verbatim>\<open>str\<close> is a \<open>string\<close> (a list of 8-bit characters); \<^verbatim>\<open>lower\<close>,
    \<^verbatim>\<open>title\<close> and the regular expression class \<^verbatim>\<open>\d\<close> are modelled on ASCII.
  \<^item> A Python \<^verbatim>\<open>float\<close> is a value of a type \<open>'f\<close> that the embedding does not fix. What
    the interpreter does with floats (conversion from an \<^verbatim>\<open>int\<close> and from a string,
    printing, \<^verbatim>\<open>round\<close>, subtraction, \<^verbatim>\<open>abs\<close>, comparison, \<^verbatim>\<open>math.isclose\<close>) is the
    record \<open>fl\<close> of operations that every function of the embedding takes as a parameter.
    The section on binary64 interprets the arithmetic among them as that of IEEE 754.
  \<^item> Exceptions are values of the type \<open>exception\<close>; every function that can raise
    returns \<open>exception + 'a\<close>, with \<open>Inl\<close> for the exception.
  \<^item> \<^verbatim>\<open>json.loads\<close>, the generative model, the prompt builders and the wording of
    interpreter-generated exception messages are parameters.
  \<^item> Logging is not modelled: it does not influence any returned value.
\<close>

subsection \<open>Characters and strings\<close>

definition ascii_upper :: string where
  "ascii_upper = ''ABCDEFGHIJKLMNOPQRSTUVWXYZ''"

definition ascii_lower :: string where
  "ascii_lower = ''abcdefghijklmnopqrstuvwxyz''"

definition lower_char :: "char \<Rightarrow> char" where
  "lower_char c = (case map_of (zip ascii_upper ascii_lower) c of Some l \<Rightarrow> l | None \<Rightarrow> c)"

definition upper_char :: "char \<Rightarrow> char" where
  "upper_char c = (case map_of (zip ascii_lower ascii_upper) c of Some u \<Rightarrow> u | None \<Rightarrow> c)"

definition is_alpha :: "char \<Rightarrow> bool" where
  "is_alpha c = (c \<in> set (ascii_upper @ ascii_lower))"

text \<open>\<^verbatim>\<open>s.lower()\<close>\<close>

definition py_lower :: "string \<Rightarrow> string" where
  "py_lower s = map lower_char s"

text \<open>\<^verbatim>\<open>s.replace(old, new)\<close> for one-character \<^verbatim>\<open>old\<close> and \<^verbatim>\<open>new\<close>.\<close>

definition py_replace :: "char \<Rightarrow> char \<Rightarrow> string \<Rightarrow> string" where
  "py_replace old new s = map (\<lambda>c. if c = old then new else c) s"

text \<open>
  \<^verbatim>\<open>s.title()\<close>: a letter that follows a letter is lowercased, any other letter is
  uppercased, every other character is kept.
\<close>

fun title_from :: "bool \<Rightarrow> string \<Rightarrow> string" where
  "title_from prev [] = []"
| "title_from prev (c # cs) =
     (if is_alpha c then (if prev then lower_char c else upper_char c) # title_from True cs
      else c # title_from False cs)"

definition py_title :: "string \<Rightarrow> string" where
  "py_title s = title_from False s"

text \<open>\<^verbatim>\<open>sub in s\<close> on strings is \<^const>\<open>sublist\<close> (a contiguous occurrence).\<close>

definition is_space :: "char \<Rightarrow> bool" where
  "is_space c = (c \<in> set [CHR '' '', CHR 0x09, CHR 0x0A, CHR 0x0B, CHR 0x0C, CHR 0x0D,
                            CHR 0x1C, CHR 0x1D, CHR 0x1E, CHR 0x1F])"

text \<open>\<^verbatim>\<open>s.strip()\<close>\<close>

definition py_strip :: "string \<Rightarrow> string" where
  "py_strip s = rev (dropWhile is_space (rev (dropWhile is_space s)))"

subsection \<open>Decimal digits and integers\<close>

definition is_digit :: "char \<Rightarrow> bool" where
  "is_digit c = (c \<in> set ''0123456789'')"

definition digit_val :: "char \<Rightarrow> nat" where
  "digit_val c = of_char c - 48"

definition digit_char :: "nat \<Rightarrow> char" where
  "digit_char d = ''0123456789'' ! d"

text \<open>The value of a digit string read as a natural number, most significant digit first.\<close>

fun digits_val :: "nat \<Rightarrow> string \<Rightarrow> nat" where
  "digits_val acc [] = acc"
| "digits_val acc (c # cs) = digits_val (10 * acc + digit_val c) cs"

text \<open>\<^verbatim>\<open>str(n)\<close> for a natural number and for an \<^verbatim>\<open>int\<close>.\<close>

fun nat_str :: "nat \<Rightarrow> string" where
  "nat_str n = (if n < 10 then [digit_char n] else nat_str (n div 10) @ [digit_char (n mod 10)])"

declare nat_str.simps [simp del]

definition int_str :: "int \<Rightarrow> string" where
  "int_str i = (if i < 0 then CHR ''-'' # nat_str (nat (- i)) else nat_str (nat i))"

text \<open>
  The digits of an integer literal given to \<^verbatim>\<open>int\<close>: digits, with single underscores
  allowed between two digits.
\<close>

definition grouped_digits :: "string \<Rightarrow> string option" where
  "grouped_digits s =
     (if s \<noteq> [] \<and> is_digit (hd s) \<and> is_digit (last s)
         \<and> list_all (\<lambda>c. is_digit c \<or> c = CHR ''_'') s \<and> \<not> sublist ''__'' s
      then Some (filter is_digit s) else None)"

text \<open>
  \<^verbatim>\<open>int(s)\<close> for a string: surrounding whitespace is dropped, then an optional sign and
  the digits. \<open>None\<close> is the \<^verbatim>\<open>ValueError\<close>.
\<close>

definition py_int_str :: "string \<Rightarrow> int option" where
  "py_int_str s0 =
     (let s = py_strip s0;
          (neg, ds) = (case s of
                         [] \<Rightarrow> (False, s)
                       | c # r \<Rightarrow> if c = CHR ''-'' then (True, r)
                                  else if c = CHR ''+'' then (False, r) else (False, s))
      in case grouped_digits ds of
           Some d \<Rightarrow> Some (if neg then - int (digits_val 0 d) else int (digits_val 0 d))
         | None \<Rightarrow> None)"

subsection \<open>The numeric-token pattern\<close>

text \<open>
  \<^verbatim>\<open>re.findall(r"-?\d+\.?\d+", s)\<close>. \<open>match_number s\<close> is the match of the pattern at the
  start of \<open>s\<close>, with the rest of the string after it. The pattern is greedy with
  backtracking: after an optional minus sign the first \<^verbatim>\<open>\d+\<close> takes the whole run of
  digits; if a point and at least one digit follow, the match ends after that second run;
  otherwise the first \<^verbatim>\<open>\d+\<close> gives its last digit back to the second \<^verbatim>\<open>\d+\<close>, which
  needs a run of at least two digits. \<open>findall_numbers\<close> scans from left to right and
  resumes after each match.
\<close>

definition match_number :: "string \<Rightarrow> (string \<times> string) option" where
  "match_number s =
     (let (sgn, s1) = (case s of
                         [] \<Rightarrow> ([], s)
                       | c # r \<Rightarrow> if c = CHR ''-'' then ([c], r) else ([], s));
          ds = takeWhile is_digit s1;
          r1 = dropWhile is_digit s1;
          fs = (case r1 of [] \<Rightarrow> [] | c # r2 \<Rightarrow> if c = CHR ''.'' then takeWhile is_digit r2 else [])
      in if ds = [] then None
         else if fs \<noteq> [] then Some (sgn @ ds @ CHR ''.'' # fs, dropWhile is_digit (tl r1))
         else if 2 \<le> length ds then Some (sgn @ ds, r1)
         else None)"

lemma match_number_shorter:
  assumes "match_number s = Some (tok, rest)"
  shows "length rest < length s"
proof -
  have dw: "length (dropWhile is_digit xs) \<le> length xs" for xs
    by (simp add: length_dropWhile_le)
  have tw: "takeWhile is_digit xs \<noteq> [] \<Longrightarrow> length (dropWhile is_digit xs) < length xs" for xs
    by (cases xs) (auto simp: le_imp_less_Suc length_dropWhile_le split: if_splits)
  have tl: "length (dropWhile is_digit (tl xs)) \<le> length xs" for xs
    by (cases xs) (auto simp: le_SucI length_dropWhile_le)
  show ?thesis
  proof (cases s)
    case Nil
    with assms show ?thesis by (simp add: match_number_def)
  next
    case (Cons c r)
    show ?thesis
    proof (cases "c = CHR ''-''")
      case True
      with assms Cons dw [of r] tl [of "dropWhile is_digit r"] show ?thesis
        by (auto simp: match_number_def Let_def split: if_splits)
    next
      case False
      with assms Cons tw [of s] tl [of "dropWhile is_digit s"] show ?thesis
        by (auto simp: match_number_def Let_def split: if_splits)
    qed
  qed
qed

function findall_numbers :: "string \<Rightarrow> string list" where
  "findall_numbers [] = []"
| "findall_numbers (c # cs) =
     (case match_number (c # cs) of
        Some (tok, rest) \<Rightarrow> tok # findall_numbers rest
      | None \<Rightarrow> findall_numbers cs)"
  by pat_completeness auto
termination
  by (relation "measure length") (auto dest: match_number_shorter)

subsection \<open>Floats\<close>

text \<open>
  The operations of the interpreter on floats, for a type \<open>'f\<close> of floats:
  \<^item> \<open>float_of_int\<close>: \<^verbatim>\<open>float(i)\<close> for an \<^verbatim>\<open>int\<close>, \<open>None\<close> when it raises
    (\<^verbatim>\<open>OverflowError\<close>);
  \<^item> \<open>float_of_str\<close>: \<^verbatim>\<open>float(s)\<close> for a string, \<open>None\<close> when it raises (\<^verbatim>\<open>ValueError\<close>);
  \<^item> \<open>float_literal\<close>: the float that a decimal literal of the source text denotes, given
    the value of the literal;
  \<^item> \<open>float_str\<close>: \<^verbatim>\<open>repr(x)\<close>, which is also \<^verbatim>\<open>str(x)\<close> and what an f-string prints;
  \<^item> \<open>float_round\<close>: \<^verbatim>\<open>round(x, n)\<close>;
  \<^item> \<open>float_trunc\<close>: \<^verbatim>\<open>int(x)\<close>, \<open>None\<close> when it raises (an infinity or a NaN);
  \<^item> \<open>float_nonzero\<close>: the truth value of \<open>x\<close> in a condition;
  \<^item> \<open>float_sub\<close>, \<open>float_abs\<close>, \<open>float_le\<close>: \<^verbatim>\<open>x - y\<close>, \<^verbatim>\<open>abs(x)\<close> and \<^verbatim>\<open>x <= y\<close>;
  \<^item> \<open>float_isclose\<close>: \<^verbatim>\<open>math.isclose(a, b, rel_tol=r, abs_tol=t)\<close>.
\<close>

record 'f float_ops =
  float_of_int :: "int \<Rightarrow> 'f option"
  float_of_str :: "string \<Rightarrow> 'f option"
  float_literal :: "rat \<Rightarrow> 'f"
  float_str :: "'f \<Rightarrow> string"
  float_round :: "'f \<Rightarrow> int \<Rightarrow> 'f"
  float_trunc :: "'f \<Rightarrow> int option"
  float_nonzero :: "'f \<Rightarrow> bool"
  float_sub :: "'f \<Rightarrow> 'f \<Rightarrow> 'f"
  float_abs :: "'f \<Rightarrow> 'f"
  float_le :: "'f \<Rightarrow> 'f \<Rightarrow> bool"
  float_isclose :: "'f \<Rightarrow> 'f \<Rightarrow> 'f \<Rightarrow> 'f \<Rightarrow> bool"

subsection \<open>Python values and exceptions\<close>

datatype 'f py =
    PNone
  | PBool bool
  | PInt int
  | PFloat 'f
  | PStr string
  | PList "'f py list"
  | PDict "(string \<times> 'f py) list"

text \<open>
  An exception raised by the interpreter or by a builtin on a value that it does not take;
  the wording of its message is not fixed here.
\<close>

datatype 'f fault =
    NotContainer "'f py"
  | NotSubscriptable "'f py"
  | NoAttribute "'f py" string
  | NotIterable "'f py"
  | BadFloat "'f py"
  | BadInt "'f py"
  | BadPattern "'f py"
  | ItemAssignment "'f py"

datatype 'f exception =
    ValueError string
  | KeyError string
  | RuntimeError string
  | Fault "'f fault"
  | ClientError string

text \<open>
  \<^verbatim>\<open>str(e)\<close> for a caught exception: the message of a \<^verbatim>\<open>ValueError\<close> or
  \<^verbatim>\<open>RuntimeError\<close> raised with one, the quoted key of a \<^verbatim>\<open>KeyError\<close> (every key
  looked up is an identifier written in the source), and for the interpreter's own
  exceptions the text \<open>fmsg\<close> gives them.
\<close>

definition exc_str :: "('f fault \<Rightarrow> string) \<Rightarrow> 'f exception \<Rightarrow> string" where
  "exc_str fmsg e =
     (case e of
        ValueError m \<Rightarrow> m
      | KeyError k \<Rightarrow> CHR 0x27 # k @ [CHR 0x27]
      | RuntimeError m \<Rightarrow> m
      | Fault f \<Rightarrow> fmsg f
      | ClientError m \<Rightarrow> m)"

definition bindE :: "'e + 'a \<Rightarrow> ('a \<Rightarrow> 'e + 'b) \<Rightarrow> 'e + 'b" where
  "bindE m f = (case m of Inl e \<Rightarrow> Inl e | Inr x \<Rightarrow> f x)"

text \<open>A \<^verbatim>\<open>for\<close> loop whose body may raise: the first exception ends it.\<close>

fun for_each :: "('a \<Rightarrow> 'e + unit) \<Rightarrow> 'a list \<Rightarrow> 'e + unit" where
  "for_each body [] = Inr ()"
| "for_each body (x # xs) = (case body x of Inl e \<Rightarrow> Inl e | Inr u \<Rightarrow> for_each body xs)"

text \<open>A \<^verbatim>\<open>for\<close> loop that appends to a list and may raise.\<close>

fun collect :: "('a \<Rightarrow> 'e + 'b list) \<Rightarrow> 'a list \<Rightarrow> 'e + 'b list" where
  "collect body [] = Inr []"
| "collect body (x # xs) =
     (case body x of
        Inl e \<Rightarrow> Inl e
      | Inr ys \<Rightarrow> (case collect body xs of Inl e \<Rightarrow> Inl e | Inr zs \<Rightarrow> Inr (ys @ zs)))"

lemma collect_cong [fundef_cong]:
  assumes "xs = ys" "\<And>x. x \<in> set ys \<Longrightarrow> f x = g x"
  shows "collect f xs = collect g ys"
proof -
  have "collect f ys = collect g ys"
    using assms(2) by (induction ys) (simp_all split: sum.splits)
  with assms(1) show ?thesis by simp
qed

text \<open>\<^verbatim>\<open>k in obj\<close> for a string \<open>k\<close>.\<close>

definition py_contains :: "string \<Rightarrow> 'f py \<Rightarrow> 'f exception + bool" where
  "py_contains k obj =
     (case obj of
        PDict kvs \<Rightarrow> Inr (map_of kvs k \<noteq> None)
      | PList xs \<Rightarrow> Inr (PStr k \<in> set xs)
      | PStr s \<Rightarrow> Inr (sublist k s)
      | _ \<Rightarrow> Inl (Fault (NotContainer obj)))"

text \<open>\<^verbatim>\<open>obj[k]\<close> for a string \<open>k\<close>.\<close>

definition py_getitem :: "'f py \<Rightarrow> string \<Rightarrow> 'f exception + 'f py" where
  "py_getitem obj k =
     (case obj of
        PDict kvs \<Rightarrow> (case map_of kvs k of Some v \<Rightarrow> Inr v | None \<Rightarrow> Inl (KeyError k))
      | _ \<Rightarrow> Inl (Fault (NotSubscriptable obj)))"

text \<open>\<^verbatim>\<open>obj.get(k, dflt)\<close>\<close>

definition py_get :: "'f py \<Rightarrow> string \<Rightarrow> 'f py \<Rightarrow> 'f exception + 'f py" where
  "py_get obj k dflt =
     (case obj of
        PDict kvs \<Rightarrow> Inr (case map_of kvs k of Some v \<Rightarrow> v | None \<Rightarrow> dflt)
      | _ \<Rightarrow> Inl (Fault (NoAttribute obj ''get'')))"

text \<open>\<^verbatim>\<open>obj[k] = v\<close> for a string \<open>k\<close>: an existing key keeps its place, a new one goes last.\<close>

definition py_setitem :: "'f py \<Rightarrow> string \<Rightarrow> 'f py \<Rightarrow> 'f exception + 'f py" where
  "py_setitem obj k v =
     (case obj of
        PDict kvs \<Rightarrow> Inr (PDict (AList.update k v kvs))
      | _ \<Rightarrow> Inl (Fault (ItemAssignment obj)))"

text \<open>\<^verbatim>\<open>float(v)\<close>\<close>

definition py_float :: "'f float_ops \<Rightarrow> 'f py \<Rightarrow> 'f exception + 'f" where
  "py_float fl v =
     (case v of
        PInt i \<Rightarrow> (case float_of_int fl i of Some x \<Rightarrow> Inr x | None \<Rightarrow> Inl (Fault (BadFloat v)))
      | PFloat x \<Rightarrow> Inr x
      | PBool b \<Rightarrow> (case float_of_int fl (if b then 1 else 0) of
                      Some x \<Rightarrow> Inr x
                    | None \<Rightarrow> Inl (Fault (BadFloat v)))
      | PStr s \<Rightarrow> (case float_of_str fl s of Some x \<Rightarrow> Inr x | None \<Rightarrow> Inl (Fault (BadFloat v)))
      | _ \<Rightarrow> Inl (Fault (BadFloat v)))"

text \<open>\<^verbatim>\<open>int(v)\<close>\<close>

definition py_int :: "'f float_ops \<Rightarrow> 'f py \<Rightarrow> 'f exception + int" where
  "py_int fl v =
     (case v of
        PInt i \<Rightarrow> Inr i
      | PFloat x \<Rightarrow> (case float_trunc fl x of Some i \<Rightarrow> Inr i | None \<Rightarrow> Inl (Fault (BadInt v)))
      | PBool b \<Rightarrow> Inr (if b then 1 else 0)
      | PStr s \<Rightarrow> (case py_int_str s of Some i \<Rightarrow> Inr i | None \<Rightarrow> Inl (Fault (BadInt v)))
      | _ \<Rightarrow> Inl (Fault (BadInt v)))"

text \<open>\<^verbatim>\<open>v.lower()\<close>\<close>

definition py_lower_of :: "'f py \<Rightarrow> 'f exception + string" where
  "py_lower_of v = (case v of PStr s \<Rightarrow> Inr (py_lower s) | _ \<Rightarrow> Inl (Fault (NoAttribute v ''lower'')))"

text \<open>The items a \<^verbatim>\<open>for\<close> loop over \<open>v\<close> visits.\<close>

definition py_iter :: "'f py \<Rightarrow> 'f exception + 'f py list" where
  "py_iter v =
     (case v of
        PList xs \<Rightarrow> Inr xs
      | PStr s \<Rightarrow> Inr (map (\<lambda>c. PStr [c]) s)
      | PDict kvs \<Rightarrow> Inr (map (\<lambda>kv. PStr (fst kv)) kvs)
      | _ \<Rightarrow> Inl (Fault (NotIterable v)))"

text \<open>The truth value of \<open>v\<close> in a condition.\<close>

definition py_truthy :: "'f float_ops \<Rightarrow> 'f py \<Rightarrow> bool" where
  "py_truthy fl v =
     (case v of
        PNone \<Rightarrow> False
      | PBool b \<Rightarrow> b
      | PInt i \<Rightarrow> i \<noteq> 0
      | PFloat x \<Rightarrow> float_nonzero fl x
      | PStr s \<Rightarrow> s \<noteq> []
      | PList xs \<Rightarrow> xs \<noteq> []
      | PDict kvs \<Rightarrow> kvs \<noteq> [])"

fun join :: "string \<Rightarrow> string list \<Rightarrow> string" where
  "join sep [] = []"
| "join sep [x] = x"
| "join sep (x # y # ys) = x @ sep @ join sep (y # ys)"

definition hex_digit :: "nat \<Rightarrow> char" where
  "hex_digit n = ''0123456789abcdef'' ! (n mod 16)"

text \<open>
  \<^verbatim>\<open>repr(s)\<close> of a string: single quotes, or double quotes when the string has a single
  quote and no double one; backslash, the quote and control characters are escaped.
\<close>

definition repr_char :: "char \<Rightarrow> char \<Rightarrow> string" where
  "repr_char q c =
     (if c = CHR 0x5C then [CHR 0x5C, CHR 0x5C]
      else if c = q then [CHR 0x5C, q]
      else if c = CHR 0x0A then [CHR 0x5C, CHR ''n'']
      else if c = CHR 0x0D then [CHR 0x5C, CHR ''r'']
      else if c = CHR 0x09 then [CHR 0x5C, CHR ''t'']
      else if (of_char c :: nat) < 32 \<or> c = CHR 0x7F
        then [CHR 0x5C, CHR ''x'', hex_digit (of_char c div 16), hex_digit (of_char c)]
      else [c])"

definition repr_str :: "string \<Rightarrow> string" where
  "repr_str s =
     (let q = (if CHR 0x27 \<in> set s \<and> CHR 0x22 \<notin> set s then CHR 0x22 else CHR 0x27)
      in q # concat (map (repr_char q) s) @ [q])"

text \<open>\<^verbatim>\<open>repr(v)\<close>\<close>

fun py_repr :: "'f float_ops \<Rightarrow> 'f py \<Rightarrow> string" where
  "py_repr fl PNone = ''None''"
| "py_repr fl (PBool b) = (if b then ''True'' else ''False'')"
| "py_repr fl (PInt i) = int_str i"
| "py_repr fl (PFloat x) = float_str fl x"
| "py_repr fl (PStr s) = repr_str s"
| "py_repr fl (PList xs) = ''['' @ join '', '' (map (py_repr fl) xs) @ '']''"
| "py_repr fl (PDict kvs) =
     ''{'' @ join '', '' (map (\<lambda>kv. repr_str (fst kv) @ '': '' @ py_repr fl (snd kv)) kvs) @ ''}''"

text \<open>\<^verbatim>\<open>str(v)\<close>, which is also what an f-string prints for \<open>v\<close>.\<close>

definition py_str :: "'f float_ops \<Rightarrow> 'f py \<Rightarrow> string" where
  "py_str fl v = (case v of PStr s \<Rightarrow> s | _ \<Rightarrow> py_repr fl v)"

subsection \<open>Constants of the module\<close>

definition ALLOWED_ROIS :: "string list" where
  "ALLOWED_ROIS =
     [''hippocampus'', ''entorhinal_cortex'', ''temporal_lobe'', ''parietal_lobe'', ''ventricles'']"

definition FORBIDDEN_TERMS :: "string list" where
  "FORBIDDEN_TERMS =
     [''alzheimer'', ''dementia'', ''mci'', ''mild cognitive impairment'', ''diagnosis'',
      ''will develop'']"

definition MISMATCH_TERMS :: "string list" where
  "MISMATCH_TERMS =
     [''discrepancy'', ''inconsistent'', ''contradict'', ''mismatch'', ''does not align'',
      ''spatial conflict'', ''anatomical divergence'']"

definition MAX_RETRY :: nat where
  "MAX_RETRY = 2"

text \<open>\<^verbatim>\<open>NUMERIC_TOLERANCE = 0.05\<close>: the float of the literal.\<close>

definition NUMERIC_TOLERANCE :: "'f float_ops \<Rightarrow> 'f" where
  "NUMERIC_TOLERANCE fl = float_literal fl (5 / 100)"

subsection \<open>Basic validators\<close>

text \<open>\<^verbatim>\<open>_validate_payload\<close>\<close>

definition validate_payload :: "'f py \<Rightarrow> 'f exception + unit" where
  "validate_payload payload =
     for_each
       (\<lambda>k. bindE (py_contains k payload)
          (\<lambda>present. if \<not> present then Inl (ValueError (''Missing payload key: '' @ k))
                      else Inr ()))
       [''metadata'', ''roi_metrics'', ''progression'', ''context_images'']"

text \<open>\<^verbatim>\<open>_check_forbidden_terms\<close>\<close>

definition check_forbidden_terms :: "string \<Rightarrow> 'f exception + unit" where
  "check_forbidden_terms text =
     (let lower = py_lower text
      in for_each
           (\<lambda>term. if sublist term lower
                    then Inl (ValueError (''Forbidden medical claim detected: '' @ term))
                    else Inr ())
           FORBIDDEN_TERMS)"

text \<open>\<^verbatim>\<open>payload["roi_metrics"][roi][nk]\<close>\<close>

definition roi_metric :: "'f py \<Rightarrow> string \<Rightarrow> string \<Rightarrow> 'f exception + 'f py" where
  "roi_metric payload roi nk =
     bindE (py_getitem payload ''roi_metrics'') (\<lambda>metrics.
     bindE (py_getitem metrics roi) (\<lambda>entry.
     py_getitem entry nk))"

text \<open>
  The floats of the tokens that the pattern finds in \<open>s\<close>; a token that \<^verbatim>\<open>float\<close>
  rejects is skipped (\<^verbatim>\<open>except: pass\<close>).
\<close>

definition numbers_in_text :: "'f float_ops \<Rightarrow> string \<Rightarrow> 'f list" where
  "numbers_in_text fl s = List.map_filter (float_of_str fl) (findall_numbers s)"

text \<open>\<^verbatim>\<open>_allowed_numeric_values\<close>\<close>

definition allowed_numeric_values :: "'f float_ops \<Rightarrow> 'f py \<Rightarrow> 'f exception + 'f list" where
  "allowed_numeric_values fl payload =
     bindE (collect
              (\<lambda>roi.
                 bindE (roi_metric payload roi ''annual_percent_change'') (\<lambda>a.
                 bindE (py_float fl a) (\<lambda>apc.
                 bindE (roi_metric payload roi ''z_score'') (\<lambda>b.
                 bindE (py_float fl b) (\<lambda>z.
                 Inr [apc, z])))))
              ALLOWED_ROIS) (\<lambda>roi_values.
     bindE (py_getitem payload ''progression'') (\<lambda>progression.
     bindE (py_get progression ''score'' (PInt 0)) (\<lambda>sc.
     bindE (py_float fl sc) (\<lambda>score.
     bindE (py_getitem payload ''metadata'') (\<lambda>metadata.
     bindE (py_get metadata ''interval_years'' (PFloat (float_literal fl 0))) (\<lambda>iv.
     bindE (py_float fl iv) (\<lambda>interval.
     bindE (py_get progression ''rationale'' (PList [])) (\<lambda>rationale.
     bindE (py_iter rationale) (\<lambda>items.
     bindE (collect
              (\<lambda>item. case item of
                         PStr s \<Rightarrow> Inr (numbers_in_text fl s)
                       | _ \<Rightarrow> Inl (Fault (BadPattern item)))
              items) (\<lambda>thresholds.
     Inr (roi_values @ [score, interval] @ thresholds)))))))))))"

text \<open>\<^verbatim>\<open>_extract_numbers_from_jsonish\<close>\<close>

fun extract_numbers_from_jsonish :: "'f float_ops \<Rightarrow> 'f py \<Rightarrow> 'f exception + 'f list" where
  "extract_numbers_from_jsonish fl (PDict kvs) =
     collect (\<lambda>kv. extract_numbers_from_jsonish fl (snd kv)) kvs"
| "extract_numbers_from_jsonish fl (PList xs) = collect (extract_numbers_from_jsonish fl) xs"
| "extract_numbers_from_jsonish fl (PBool b) = Inr []"
| "extract_numbers_from_jsonish fl (PInt i) = bindE (py_float fl (PInt i)) (\<lambda>x. Inr [x])"
| "extract_numbers_from_jsonish fl (PFloat x) = bindE (py_float fl (PFloat x)) (\<lambda>x. Inr [x])"
| "extract_numbers_from_jsonish fl (PStr s) = Inr (numbers_in_text fl s)"
| "extract_numbers_from_jsonish fl PNone = Inr []"

text \<open>\<^verbatim>\<open>_numbers_within_allowed\<close>: the first found number that no allowed value is near.\<close>

fun numbers_within_allowed :: "'f float_ops \<Rightarrow> 'f list \<Rightarrow> 'f list \<Rightarrow> 'f option" where
  "numbers_within_allowed fl [] allowed = None"
| "numbers_within_allowed fl (num # rest) allowed =
     (if \<not> list_ex (\<lambda>a. float_le fl (float_abs fl (float_sub fl num a)) (NUMERIC_TOLERANCE fl))
              allowed
      then Some num
      else numbers_within_allowed fl rest allowed)"

subsection \<open>The validator of the final report\<close>

text \<open>The body of the loop over \<^verbatim>\<open>ALLOWED_ROIS\<close> in \<^verbatim>\<open>_validate_final_json\<close>.\<close>

definition check_roi :: "'f float_ops \<Rightarrow> 'f py \<Rightarrow> 'f py \<Rightarrow> string \<Rightarrow> 'f exception + unit" where
  "check_roi fl roi_block payload roi =
     bindE (py_contains roi roi_block) (\<lambda>present.
     if \<not> present then Inl (ValueError (''Missing ROI in final JSON: '' @ roi))
     else
       bindE (py_getitem roi_block roi) (\<lambda>entry.
       for_each
         (\<lambda>nk.
            bindE (py_contains nk entry) (\<lambda>has.
            if \<not> has then Inl (ValueError (''Missing numeric key '' @ nk @ '' for ROI '' @ roi))
            else
              bindE (if nk = ''annual_percent_change''
                     then roi_metric payload roi ''annual_percent_change''
                     else roi_metric payload roi ''z_score'') (\<lambda>pv.
              bindE (py_float fl pv) (\<lambda>payload_val.
              bindE (py_getitem entry nk) (\<lambda>reported.
              bindE (py_float fl reported) (\<lambda>r.
              if \<not> float_isclose fl r payload_val (float_literal fl 0) (NUMERIC_TOLERANCE fl)
              then Inl (ValueError (''Numeric mismatch for '' @ roi @ '' '' @ nk @ '': reported ''
                                     @ py_str fl reported @ '' vs payload ''
                                     @ float_str fl payload_val))
              else Inr ()))))))
         [''annual_percent_change'', ''z_score'']))"

text \<open>The classification block of \<^verbatim>\<open>_validate_final_json\<close>.\<close>

definition check_classification :: "'f float_ops \<Rightarrow> 'f py \<Rightarrow> 'f py \<Rightarrow> 'f exception + unit" where
  "check_classification fl cls payload =
     bindE (py_contains ''class'' cls) (\<lambda>c1.
     bindE (if \<not> c1 then Inr False else py_contains ''score'' cls) (\<lambda>c2.
     bindE (if \<not> c2 then Inr False else py_contains ''rationale'' cls) (\<lambda>c3.
     if \<not> c3 then Inl (ValueError ''classification block incomplete'')
     else
       bindE (py_getitem payload ''progression'') (\<lambda>progression.
       bindE (py_getitem progression ''class'') (\<lambda>expected_class.
       bindE (py_getitem cls ''class'') (\<lambda>c.
       bindE (py_lower_of c) (\<lambda>reported_lower.
       bindE (py_lower_of expected_class) (\<lambda>expected_lower.
       if reported_lower \<noteq> expected_lower
       then Inl (ValueError
                   ''Classification text does not match deterministic classification in payload.'')
       else
         bindE (py_getitem cls ''score'') (\<lambda>s.
         bindE (py_int fl s) (\<lambda>reported_score.
         bindE (py_getitem payload ''progression'') (\<lambda>progression2.
         bindE (py_get progression2 ''score'' (PInt 0)) (\<lambda>ps.
         bindE (py_int fl ps) (\<lambda>payload_score.
         if reported_score \<noteq> payload_score then Inl (ValueError ''Classification score mismatch.'')
         else Inr ())))))))))))))"

text \<open>\<^verbatim>\<open>_validate_final_json\<close>\<close>

definition validate_final_json :: "'f float_ops \<Rightarrow> 'f py \<Rightarrow> 'f py \<Rightarrow> 'f exception + unit" where
  "validate_final_json fl final_obj payload =
     bindE (for_each
              (\<lambda>k. bindE (py_contains k final_obj) (\<lambda>present.
                    if \<not> present
                    then Inl (ValueError (''Missing top-level key in final JSON: '' @ k))
                    else Inr ()))
              [''roi_interpretations'', ''final_narrative'', ''classification'',
               ''confidence_level'']) (\<lambda>u1.
     bindE (py_getitem final_obj ''roi_interpretations'') (\<lambda>roi_block.
     bindE (for_each (check_roi fl roi_block payload) ALLOWED_ROIS) (\<lambda>u2.
     bindE (py_getitem final_obj ''classification'') (\<lambda>cls.
     bindE (check_classification fl cls payload) (\<lambda>u3.
     bindE (allowed_numeric_values fl payload) (\<lambda>allowed.
     bindE (extract_numbers_from_jsonish fl final_obj) (\<lambda>found_nums.
     (case numbers_within_allowed fl found_nums allowed of
        Some unauthorized \<Rightarrow>
          Inl (ValueError (''Unauthorized numeric value detected: '' @ float_str fl unauthorized))
      | None \<Rightarrow> Inr ()))))))))"

text \<open>\<^verbatim>\<open>_extract_json_substring\<close>\<close>

text \<open>\<^verbatim>\<open>text.find(c)\<close> and \<^verbatim>\<open>text.rfind(c)\<close> for one character; \<open>None\<close> is \<open>-1\<close>.\<close>

definition find_char :: "char \<Rightarrow> string \<Rightarrow> nat option" where
  "find_char c text = (if c \<in> set text then Some (length (takeWhile (\<lambda>x. x \<noteq> c) text)) else None)"

definition rfind_char :: "char \<Rightarrow> string \<Rightarrow> nat option" where
  "rfind_char c text =
     (if c \<in> set text then Some (length text - 1 - length (takeWhile (\<lambda>x. x \<noteq> c) (rev text)))
      else None)"

text \<open>
  The scan of the candidate with a stack of open braces, here its depth: \<open>False\<close> when a
  closing brace meets an empty stack or the stack is not empty at the end.
\<close>

fun braces_balanced :: "nat \<Rightarrow> string \<Rightarrow> bool" where
  "braces_balanced depth [] = (depth = 0)"
| "braces_balanced depth (ch # rest) =
     (if ch = CHR ''{'' then braces_balanced (Suc depth) rest
      else if ch = CHR ''}'' then (if depth = 0 then False else braces_balanced (depth - 1) rest)
      else braces_balanced depth rest)"

definition extract_json_substring :: "string \<Rightarrow> string option" where
  "extract_json_substring text =
     (case (find_char CHR ''{'' text, rfind_char CHR ''}'' text) of
        (Some start, Some end) \<Rightarrow>
          if end \<le> start then None
          else (let candidate = take (end + 1 - start) (drop start text)
                in if braces_balanced 0 candidate then Some candidate else None)
      | _ \<Rightarrow> None)"

subsection \<open>Deterministic fallback generator\<close>

definition interpretation_text :: "'f float_ops \<Rightarrow> string \<Rightarrow> 'f \<Rightarrow> 'f \<Rightarrow> string" where
  "interpretation_text fl roi apc z =
     py_title (py_replace CHR ''_'' CHR '' '' roi) @ '': annual change '' @ float_str fl apc
       @ ''% per year (Z = '' @ float_str fl z @ '').''"

definition fallback_narrative :: string where
  "fallback_narrative =
     ''Deterministic fallback narrative synthesized from validated numeric payload. ''
     @ ''ROI interpretations produced programmatically to ensure numeric integrity.''"

text \<open>
  \<^verbatim>\<open>deterministic_fallback\<close>; the three stage texts are arguments that the result does
  not depend on.
\<close>

definition deterministic_fallback ::
  "'f float_ops \<Rightarrow> 'f py \<Rightarrow> string \<Rightarrow> string \<Rightarrow> string \<Rightarrow> 'f exception + 'f py" where
  "deterministic_fallback fl payload stage1 stage2 stage3 =
     bindE (collect
              (\<lambda>roi.
                 bindE (roi_metric payload roi ''annual_percent_change'') (\<lambda>a.
                 bindE (py_float fl a) (\<lambda>a'.
                 bindE (roi_metric payload roi ''z_score'') (\<lambda>b.
                 bindE (py_float fl b) (\<lambda>b'.
                 let apc = float_round fl a' 3; z = float_round fl b' 3
                 in Inr [(roi, PDict [(''annual_percent_change'', PFloat apc),
                                      (''z_score'', PFloat z),
                                      (''interpretation'',
                                         PStr (interpretation_text fl roi apc z))])])))))
              ALLOWED_ROIS) (\<lambda>roi_block.
     bindE (py_getitem payload ''progression'') (\<lambda>progression.
     bindE (py_getitem progression ''class'') (\<lambda>cls.
     bindE (py_get progression ''score'' (PInt 0)) (\<lambda>sc.
     bindE (py_int fl sc) (\<lambda>score.
     bindE (py_get progression ''rationale'' (PList [])) (\<lambda>rationale.
     Inr (PDict
       [(''roi_interpretations'', PDict roi_block),
        (''final_narrative'', PStr fallback_narrative),
        (''classification'',
           PDict [(''class'', cls), (''score'', PInt score), (''rationale'', rationale)]),
        (''confidence_level'', PStr ''Low (fallback)''),
        (''warning_flag'', PNone),
        (''repair_attempted'', PBool True),
        (''fallback_used'', PBool True)])))))))"

subsection \<open>The stage executor\<close>

text \<open>
  A prompt package (the builders of \<^verbatim>\<open>Prompts.py\<close> always give it its three keys), what
  a call of the model can do, and the model itself: a function of its own state and the
  package, so that it may answer differently at every call.
\<close>

record prompt_package =
  pkg_text :: string
  pkg_images :: "string list"
  pkg_stage :: string

datatype 'f reply = Text string | NonText | Raises "'f exception"

type_synonym ('f, 's) model = "'s \<Rightarrow> prompt_package \<Rightarrow> 'f reply \<times> 's"

text \<open>
  The parsing of a response in JSON mode: \<^verbatim>\<open>json.loads\<close> (the parameter \<open>loads\<close>,
  \<open>None\<close> when it raises) on the response and, when that raises, on the extracted
  substring.
\<close>

definition parse_json :: "(string \<Rightarrow> 'f py option) \<Rightarrow> string \<Rightarrow> 'f py option" where
  "parse_json loads response =
     (case loads response of
        Some v \<Rightarrow> Some v
      | None \<Rightarrow>
          (case extract_json_substring response of
             Some candidate \<Rightarrow> if candidate \<noteq> [] then loads candidate else None
           | None \<Rightarrow> None))"

text \<open>The check of text mode under \<^verbatim>\<open>strict\<close>.\<close>

definition check_strict_numbers :: "'f float_ops \<Rightarrow> 'f py \<Rightarrow> string \<Rightarrow> 'f exception + unit" where
  "check_strict_numbers fl payload response =
     for_each
       (\<lambda>roi.
          bindE (roi_metric payload roi ''annual_percent_change'') (\<lambda>a.
          bindE (roi_metric payload roi ''z_score'') (\<lambda>b.
          if \<not> sublist (py_str fl a) response \<or> \<not> sublist (py_str fl b) response
          then Inl (ValueError (''Missing numeric value in text output for ROI '' @ roi @ ''.''))
          else Inr ())))
       ALLOWED_ROIS"

text \<open>
  The body of the \<^verbatim>\<open>try\<close> block of one attempt: the validated result of the stage (the
  response itself in text mode, the parsed report with its two flags in JSON mode), or the
  exception that the \<^verbatim>\<open>except\<close> clause catches.
\<close>

definition validate_response ::
  "'f float_ops \<Rightarrow> (string \<Rightarrow> 'f py option) \<Rightarrow> 'f py \<Rightarrow> bool \<Rightarrow> bool \<Rightarrow> nat \<Rightarrow> string
     \<Rightarrow> 'f exception + 'f py" where
  "validate_response fl loads payload expect_json strict attempt response =
     bindE (check_forbidden_terms response) (\<lambda>u.
     if \<not> expect_json then
       bindE (if strict then check_strict_numbers fl payload response else Inr ()) (\<lambda>u2.
       Inr (PStr response))
     else
       (case parse_json loads response of
          None \<Rightarrow> Inl (ValueError ''Model output is not valid JSON.'')
        | Some parsed \<Rightarrow>
            if parsed = PNone then Inl (ValueError ''Model output is not valid JSON.'')
            else
              bindE (validate_final_json fl parsed payload) (\<lambda>u3.
              bindE (py_setitem parsed ''repair_attempted'' (PBool (0 < attempt))) (\<lambda>parsed1.
              py_setitem parsed1 ''fallback_used'' (PBool False)))))"

text \<open>The text of the repair prompt.\<close>

definition repair_prompt :: "('f fault \<Rightarrow> string) \<Rightarrow> string \<Rightarrow> 'f exception \<Rightarrow> string" where
  "repair_prompt fmsg base_prompt e =
     base_prompt
     @ [CHR 0x0A, CHR 0x0A] @ ''VALIDATION ERROR:'' @ [CHR 0x0A]
     @ exc_str fmsg e
     @ [CHR 0x0A, CHR 0x0A] @ ''REQUIREMENTS FOR THE NEXT RESPONSE (NON-NEGOTIABLE):'' @ [CHR 0x0A]
     @ ''1) Return ONLY valid JSON.'' @ [CHR 0x0A]
     @ ''2) Numeric values must match the provided payload EXACTLY.'' @ [CHR 0x0A]
     @ ''3) Do NOT include forbidden medical claims.'' @ [CHR 0x0A]"

text \<open>\<^verbatim>\<open>str((stage_trace_texts or {}).get(k, ""))\<close>\<close>

definition trace_text :: "'f float_ops \<Rightarrow> (string \<times> 'f py) list option \<Rightarrow> string \<Rightarrow> string" where
  "trace_text fl stage_trace_texts k =
     py_str fl (case map_of (case stage_trace_texts of None \<Rightarrow> [] | Some kvs \<Rightarrow> kvs) k of
                  Some v \<Rightarrow> v
                | None \<Rightarrow> PStr [])"

text \<open>
  The loop \<^verbatim>\<open>for attempt in range(MAX_RETRY + 1)\<close> of \<^verbatim>\<open>_execute_with_retry_json\<close>, over
  the attempts still to make. It returns what the executor returns or raises, the state of
  the model, and the calls of the model in order, each with the package it was given and
  its reply.
\<close>

fun retry_loop ::
  "'f float_ops \<Rightarrow> (string \<Rightarrow> 'f py option) \<Rightarrow> ('f fault \<Rightarrow> string) \<Rightarrow> ('f, 's) model \<Rightarrow> 'f py
     \<Rightarrow> bool \<Rightarrow> bool \<Rightarrow> (string \<times> 'f py) list option \<Rightarrow> string \<Rightarrow> string list \<Rightarrow> string
     \<Rightarrow> nat list \<Rightarrow> prompt_package \<Rightarrow> 's
     \<Rightarrow> ('f exception + 'f py) \<times> 's \<times> (prompt_package \<times> 'f reply) list" where
  "retry_loop fl loads fmsg client payload expect_json strict trace base_prompt images stage
     [] pkg st = (Inl (RuntimeError ''Unexpected control flow.''), st, [])"
| "retry_loop fl loads fmsg client payload expect_json strict trace base_prompt images stage
     (attempt # rest) pkg st =
     (case client st pkg of
        (Raises e, st') \<Rightarrow> (Inl e, st', [(pkg, Raises e)])
      | (NonText, st') \<Rightarrow> (Inl (ValueError ''Model response must be string.''), st', [(pkg, NonText)])
      | (Text response, st') \<Rightarrow>
          (case validate_response fl loads payload expect_json strict attempt response of
             Inr result \<Rightarrow> (Inr result, st', [(pkg, Text response)])
           | Inl e \<Rightarrow>
               if attempt = MAX_RETRY then
                 (if expect_json
                  then (deterministic_fallback fl payload (trace_text fl trace ''stage1'')
                          (trace_text fl trace ''stage2'') (trace_text fl trace ''stage3''),
                        st', [(pkg, Text response)])
                  else (Inl e, st', [(pkg, Text response)]))
               else
                 (case retry_loop fl loads fmsg client payload expect_json strict trace base_prompt
                         images stage rest
                         \<lparr>pkg_text = repair_prompt fmsg base_prompt e, pkg_images = images,
                          pkg_stage = stage\<rparr> st' of
                    (outcome, st'', calls) \<Rightarrow> (outcome, st'', (pkg, Text response) # calls))))"

text \<open>\<^verbatim>\<open>_execute_with_retry_json\<close>\<close>

definition execute_with_retry_json ::
  "'f float_ops \<Rightarrow> (string \<Rightarrow> 'f py option) \<Rightarrow> ('f fault \<Rightarrow> string) \<Rightarrow> ('f, 's) model \<Rightarrow> 'f py
     \<Rightarrow> bool \<Rightarrow> bool \<Rightarrow> (string \<times> 'f py) list option \<Rightarrow> prompt_package \<Rightarrow> 's
     \<Rightarrow> ('f exception + 'f py) \<times> 's \<times> (prompt_package \<times> 'f reply) list" where
  "execute_with_retry_json fl loads fmsg client payload expect_json strict trace prompt_package st =
     retry_loop fl loads fmsg client payload expect_json strict trace
       (pkg_text prompt_package) (pkg_images prompt_package) (pkg_stage prompt_package)
       [0 ..< MAX_RETRY + 1] prompt_package st"

subsection \<open>The stage sequencer\<close>

text \<open>The four prompt builders that \<^verbatim>\<open>run_multistage_reasoning\<close> is given.\<close>

record 'f prompt_builder =
  build_numeric_prompt :: "'f py \<Rightarrow> 'f exception + prompt_package"
  build_multimodal_prompt :: "'f py \<Rightarrow> 'f py \<Rightarrow> 'f exception + prompt_package"
  build_verification_prompt :: "'f py \<Rightarrow> 'f py \<Rightarrow> 'f py \<Rightarrow> 'f exception + prompt_package"
  build_simplification_prompt :: "'f py \<Rightarrow> 'f py \<Rightarrow> 'f exception + prompt_package"

text \<open>The redundant check of the class, made unless the report is the fallback's.\<close>

definition consistency_check :: "'f float_ops \<Rightarrow> 'f py \<Rightarrow> 'f py \<Rightarrow> 'f exception + unit" where
  "consistency_check fl payload final_json =
     bindE (py_get final_json ''fallback_used'' (PBool False)) (\<lambda>fallback_used.
     if \<not> py_truthy fl fallback_used then
       bindE (py_getitem payload ''progression'') (\<lambda>progression.
       bindE (py_getitem progression ''class'') (\<lambda>expected_class.
       bindE (py_getitem final_json ''classification'') (\<lambda>cls.
       bindE (py_getitem cls ''class'') (\<lambda>c.
       bindE (py_lower_of c) (\<lambda>reported_lower.
       bindE (py_lower_of expected_class) (\<lambda>expected_lower.
       if reported_lower \<noteq> expected_lower
       then Inl (ValueError ''Final JSON classification mismatch AFTER repair.'')
       else Inr ()))))))
     else Inr ())"

text \<open>The downgrade of the confidence when stage 2 reports a mismatch.\<close>

definition mismatch_downgrade :: "'f py \<Rightarrow> 'f py \<Rightarrow> 'f exception + 'f py" where
  "mismatch_downgrade stage2_text final_json =
     bindE (py_lower_of stage2_text) (\<lambda>lower_s2.
     bindE (py_get final_json ''warning_flag'' PNone) (\<lambda>warning_flag.
     if list_ex (\<lambda>term. sublist term lower_s2) MISMATCH_TERMS \<and> warning_flag = PNone then
       bindE (py_setitem final_json ''warning_flag'' (PStr ''Visual-Numeric Mismatch'')) (\<lambda>f1.
       py_setitem f1 ''confidence_level'' (PStr ''Low (Visual Mismatch)''))
     else Inr final_json))"

text \<open>What \<^verbatim>\<open>run_multistage_reasoning\<close> does after stage 4, up to the dict it returns.\<close>

definition finish_run ::
  "'f float_ops \<Rightarrow> 'f py \<Rightarrow> 'f py \<Rightarrow> 'f py \<Rightarrow> 'f py \<Rightarrow> 'f py \<Rightarrow> 'f exception + 'f py" where
  "finish_run fl payload stage1_text stage2_text stage3_text final_json =
     bindE (consistency_check fl payload final_json) (\<lambda>u.
     bindE (mismatch_downgrade stage2_text final_json) (\<lambda>final_json'.
     bindE (py_get final_json' ''confidence_level'' PNone) (\<lambda>confidence.
     bindE (py_get final_json' ''warning_flag'' PNone) (\<lambda>warning.
     Inr (PDict
       [(''thinking_trace'',
           PDict [(''stage1_quantitative'', stage1_text),
                  (''stage2_multimodal'', stage2_text),
                  (''stage3_verification'', stage3_text)]),
        (''final_output'', final_json'),
        (''confidence_level'', confidence),
        (''warning_flag'', warning)])))))"

text \<open>
  \<^verbatim>\<open>run_multistage_reasoning\<close>: the result or the exception, the state of the model, and
  all calls of the model in order.
\<close>

definition run_multistage_reasoning ::
  "'f float_ops \<Rightarrow> (string \<Rightarrow> 'f py option) \<Rightarrow> ('f fault \<Rightarrow> string) \<Rightarrow> 'f prompt_builder
     \<Rightarrow> ('f, 's) model \<Rightarrow> 'f py \<Rightarrow> 's
     \<Rightarrow> ('f exception + 'f py) \<times> 's \<times> (prompt_package \<times> 'f reply) list" where
  "run_multistage_reasoning fl loads fmsg builder client payload st0 =
     (case validate_payload payload of
        Inl e \<Rightarrow> (Inl e, st0, [])
      | Inr u \<Rightarrow>
     (case build_numeric_prompt builder payload of
        Inl e \<Rightarrow> (Inl e, st0, [])
      | Inr pkg1 \<Rightarrow>
     (case execute_with_retry_json fl loads fmsg client payload False False None pkg1 st0 of
        (Inl e, st1, calls1) \<Rightarrow> (Inl e, st1, calls1)
      | (Inr stage1_text, st1, calls1) \<Rightarrow>
     (case build_multimodal_prompt builder payload stage1_text of
        Inl e \<Rightarrow> (Inl e, st1, calls1)
      | Inr pkg2 \<Rightarrow>
     (case execute_with_retry_json fl loads fmsg client payload False False None pkg2 st1 of
        (Inl e, st2, calls2) \<Rightarrow> (Inl e, st2, calls1 @ calls2)
      | (Inr stage2_text, st2, calls2) \<Rightarrow>
     (case build_verification_prompt builder payload stage1_text stage2_text of
        Inl e \<Rightarrow> (Inl e, st2, calls1 @ calls2)
      | Inr pkg3 \<Rightarrow>
     (case execute_with_retry_json fl loads fmsg client payload False False None pkg3 st2 of
        (Inl e, st3, calls3) \<Rightarrow> (Inl e, st3, calls1 @ calls2 @ calls3)
      | (Inr stage3_text, st3, calls3) \<Rightarrow>
     (case build_simplification_prompt builder payload stage3_text of
        Inl e \<Rightarrow> (Inl e, st3, calls1 @ calls2 @ calls3)
      | Inr pkg4 \<Rightarrow>
     (case execute_with_retry_json fl loads fmsg client payload True True
             (Some [(''stage1'', stage1_text), (''stage2'', stage2_text),
                    (''stage3'', stage3_text)]) pkg4 st3 of
        (Inl e, st4, calls4) \<Rightarrow> (Inl e, st4, calls1 @ calls2 @ calls3 @ calls4)
      | (Inr final_json, st4, calls4) \<Rightarrow>
          (finish_run fl payload stage1_text stage2_text stage3_text final_json,
           st4, calls1 @ calls2 @ calls3 @ calls4))))))))))"

section \<open>Floats as IEEE 754 binary64\<close>

text \<open>
  CPython's \<^verbatim>\<open>float\<close> is the binary64 format of IEEE 754, and its arithmetic rounds to
  nearest, ties to even. A float is a finite number (\<open>Finite r\<close> with \<open>r\<close> the number it
  stands for, \<open>Finite 0\<close> being the positive zero), the negative zero, an infinity or a NaN.
  \<open>Finite r\<close> is a float only for the numbers \<open>r\<close> of the format, those with
  \<open>round_to_double r = Finite r\<close>.
\<close>

datatype double = Finite rat | NegZero | PosInf | NegInf | NaN

text \<open>The number of binary digits of a positive integer.\<close>

function bit_length :: "int \<Rightarrow> int" where
  "bit_length n = (if n \<le> 0 then 0 else 1 + bit_length (n div 2))"
  by auto
termination
  by (relation "measure nat") auto

declare bit_length.simps [simp del]

definition pow2 :: "int \<Rightarrow> rat" where
  "pow2 e = (if 0 \<le> e then 2 ^ nat e else 1 / 2 ^ nat (- e))"

text \<open>The \<open>e\<close> with \<open>2\<^sup>e \<le> a < 2\<^sup>e\<^sup>+\<^sup>1\<close>, for \<open>a > 0\<close>.\<close>

definition binary_exponent :: "rat \<Rightarrow> int" where
  "binary_exponent a =
     (if 1 \<le> a then bit_length \<lfloor>a\<rfloor> - 1 else - bit_length (\<lceil>1 / a\<rceil> - 1))"

text \<open>The nearest integer, a tie going to the even one.\<close>

definition round_half_even :: "rat \<Rightarrow> int" where
  "round_half_even r =
     (let f = \<lfloor>r\<rfloor>; d = r - of_int f
      in if d < 1 / 2 then f else if 1 / 2 < d then f + 1 else if even f then f else f + 1)"

text \<open>
  The float nearest to the number \<open>r\<close>. With \<open>e\<close> the binary exponent of \<open>|r|\<close>, not below
  that of the smallest normal number, the floats around \<open>|r|\<close> are the multiples of
  \<open>2\<^sup>e\<^sup>-\<^sup>5\<^sup>2\<close>; \<open>m\<close> is the multiple chosen. The result is an infinity when it would reach
  \<open>2\<^sup>1\<^sup>0\<^sup>2\<^sup>4\<close>, which is here when \<open>e\<close> is \<open>1024\<close> or more, or \<open>e\<close> is \<open>1023\<close> and the
  rounding has carried \<open>m\<close> to \<open>2\<^sup>5\<^sup>3\<close>.
\<close>

definition round_to_double :: "rat \<Rightarrow> double" where
  "round_to_double r =
     (if r = 0 then Finite 0
      else
        (let a = \<bar>r\<bar>;
             e = max (binary_exponent a) (- 1022);
             q = pow2 (e - 52);
             m = round_half_even (a / q)
         in if 1024 \<le> e \<or> e = 1023 \<and> m = 9007199254740992
            then (if r < 0 then NegInf else PosInf)
            else if m = 0 then (if r < 0 then NegZero else Finite 0)
            else Finite (if r < 0 then - (of_int m * q) else of_int m * q)))"

definition is_finite :: "double \<Rightarrow> bool" where
  "is_finite x = (case x of Finite r \<Rightarrow> True | NegZero \<Rightarrow> True | _ \<Rightarrow> False)"

definition is_infinite :: "double \<Rightarrow> bool" where
  "is_infinite x = (x = PosInf \<or> x = NegInf)"

definition value_of :: "double \<Rightarrow> rat" where
  "value_of x = (case x of Finite r \<Rightarrow> r | _ \<Rightarrow> 0)"

text \<open>The sign bit.\<close>

definition negative :: "double \<Rightarrow> bool" where
  "negative x = (case x of Finite r \<Rightarrow> r < 0 | NegZero \<Rightarrow> True | NegInf \<Rightarrow> True | _ \<Rightarrow> False)"

text \<open>\<^verbatim>\<open>-x\<close>\<close>

definition ieee_neg :: "double \<Rightarrow> double" where
  "ieee_neg x =
     (case x of
        Finite r \<Rightarrow> if r = 0 then NegZero else Finite (- r)
      | NegZero \<Rightarrow> Finite 0
      | PosInf \<Rightarrow> NegInf
      | NegInf \<Rightarrow> PosInf
      | NaN \<Rightarrow> NaN)"

text \<open>
  \<^verbatim>\<open>x + y\<close>: the sum of two infinities of opposite sign is a NaN; an exact sum of zero is
  the positive zero unless both operands have the sign bit set; any other sum is rounded.
\<close>

definition ieee_add :: "double \<Rightarrow> double \<Rightarrow> double" where
  "ieee_add x y =
     (if x = NaN \<or> y = NaN then NaN
      else if is_infinite x then (if is_infinite y \<and> y \<noteq> x then NaN else x)
      else if is_infinite y then y
      else
        (let s = value_of x + value_of y
         in if s = 0 then (if negative x \<and> negative y then NegZero else Finite 0)
            else round_to_double s))"

text \<open>\<^verbatim>\<open>x - y\<close>\<close>

definition ieee_sub :: "double \<Rightarrow> double \<Rightarrow> double" where
  "ieee_sub x y = ieee_add x (ieee_neg y)"

text \<open>\<^verbatim>\<open>x * y\<close>\<close>

definition ieee_mul :: "double \<Rightarrow> double \<Rightarrow> double" where
  "ieee_mul x y =
     (if x = NaN \<or> y = NaN then NaN
      else if is_infinite x \<or> is_infinite y then
        (if is_finite x \<and> value_of x = 0 \<or> is_finite y \<and> value_of y = 0 then NaN
         else if negative x \<noteq> negative y then NegInf else PosInf)
      else
        (let p = value_of x * value_of y
         in if p = 0 then (if negative x \<noteq> negative y then NegZero else Finite 0)
            else round_to_double p))"

text \<open>\<^verbatim>\<open>abs(x)\<close>\<close>

definition ieee_abs :: "double \<Rightarrow> double" where
  "ieee_abs x =
     (case x of
        Finite r \<Rightarrow> Finite \<bar>r\<bar>
      | NegZero \<Rightarrow> Finite 0
      | PosInf \<Rightarrow> PosInf
      | NegInf \<Rightarrow> PosInf
      | NaN \<Rightarrow> NaN)"

text \<open>\<^verbatim>\<open>x <= y\<close> and \<^verbatim>\<open>x == y\<close>: false when an operand is a NaN; the two zeros are equal.\<close>

definition ieee_le :: "double \<Rightarrow> double \<Rightarrow> bool" where
  "ieee_le x y \<longleftrightarrow>
     x \<noteq> NaN \<and> y \<noteq> NaN
     \<and> (x = NegInf \<or> y = PosInf \<or> is_finite x \<and> is_finite y \<and> value_of x \<le> value_of y)"

definition ieee_eq :: "double \<Rightarrow> double \<Rightarrow> bool" where
  "ieee_eq x y \<longleftrightarrow>
     x \<noteq> NaN \<and> y \<noteq> NaN
     \<and> (if is_finite x \<and> is_finite y then value_of x = value_of y else x = y)"

text \<open>
  \<^verbatim>\<open>math.isclose(a, b, rel_tol=rel_tol, abs_tol=abs_tol)\<close> for tolerances that are not
  negative, as \<^verbatim>\<open>Modules/mathmodule.c\<close> computes it: equal values are close, an infinity is
  close to nothing else, and otherwise \<^verbatim>\<open>diff = fabs(b - a)\<close> is compared with
  \<^verbatim>\<open>fabs(rel_tol * b)\<close>, \<^verbatim>\<open>fabs(rel_tol * a)\<close> and \<^verbatim>\<open>abs_tol\<close>.
\<close>

definition ieee_isclose :: "double \<Rightarrow> double \<Rightarrow> double \<Rightarrow> double \<Rightarrow> bool" where
  "ieee_isclose a b rel_tol abs_tol \<longleftrightarrow>
     ieee_eq a b
     \<or> (\<not> is_infinite a \<and> \<not> is_infinite b
        \<and> (let diff = ieee_abs (ieee_sub b a)
           in ieee_le diff (ieee_abs (ieee_mul rel_tol b))
              \<or> ieee_le diff (ieee_abs (ieee_mul rel_tol a))
              \<or> ieee_le diff abs_tol))"

text \<open>
  Float operations whose arithmetic is that of binary64; the conversions, the printing and
  \<^verbatim>\<open>round\<close> stay those of \<open>fl\<close>. A decimal literal of the source text denotes the float
  nearest to it.
\<close>

definition binary64 :: "double float_ops \<Rightarrow> double float_ops" where
  "binary64 fl =
     fl\<lparr>float_literal := round_to_double,
        float_sub := ieee_sub,
        float_abs := ieee_abs,
        float_le := ieee_le,
        float_isclose := ieee_isclose\<rparr>"

section \<open>Notions used in the statements\<close>

text \<open>
  The shapes of tokens, the extraction as the specification words it, and the float
  operations, payloads, models, parsers and prompt builders on which the statements below
  are evaluated.
\<close>

text \<open>
  A digit stands alone between \<open>pre\<close> and \<open>post\<close> when no digit is next to it and no
  digit is across a decimal point from it.
\<close>

definition left_ok :: "string \<Rightarrow> bool" where
  "left_ok pre =
     (case rev pre of
        [] \<Rightarrow> True
      | c # r \<Rightarrow> \<not> is_digit c \<and> \<not> (c = CHR ''.'' \<and> (case r of [] \<Rightarrow> False | b # q \<Rightarrow> is_digit b)))"

definition right_ok :: "string \<Rightarrow> bool" where
  "right_ok post =
     (case post of
        [] \<Rightarrow> True
      | c # r \<Rightarrow> \<not> is_digit c \<and> \<not> (c = CHR ''.'' \<and> (case r of [] \<Rightarrow> False | b # q \<Rightarrow> is_digit b)))"

definition standalone_digit :: "string \<Rightarrow> char \<Rightarrow> string \<Rightarrow> bool" where
  "standalone_digit pre d post \<longleftrightarrow> is_digit d \<and> left_ok pre \<and> right_ok post"

definition match_unsigned :: "string \<Rightarrow> (string \<times> string) option" where
  "match_unsigned s1 =
     (let ds = takeWhile is_digit s1;
          r1 = dropWhile is_digit s1;
          fs = (case r1 of [] \<Rightarrow> [] | c # r2 \<Rightarrow> if c = CHR ''.'' then takeWhile is_digit r2 else [])
      in if ds = [] then None
         else if fs \<noteq> [] then Some (ds @ CHR ''.'' # fs, dropWhile is_digit (tl r1))
         else if 2 \<le> length ds then Some (ds, r1)
         else None)"

text \<open>
  The extraction as the specification words it, for comparison: from the first opening
  brace on, the depth of braces is tracked and the substring ends at the brace that brings
  the depth back to zero; there is none when the braces never balance.
\<close>

fun scan_to_balance :: "nat \<Rightarrow> string \<Rightarrow> string \<Rightarrow> string option" where
  "scan_to_balance depth seen [] = None"
| "scan_to_balance depth seen (ch # rest) =
     (if ch = CHR ''{'' then scan_to_balance (Suc depth) (seen @ [ch]) rest
      else if ch = CHR ''}'' then
        (if depth \<le> 1 then Some (seen @ [ch]) else scan_to_balance (depth - 1) (seen @ [ch]) rest)
      else scan_to_balance depth (seen @ [ch]) rest)"

definition spec_first_balanced_substring :: "string \<Rightarrow> string option" where
  "spec_first_balanced_substring text =
     scan_to_balance 0 [] (dropWhile (\<lambda>c. c \<noteq> CHR ''{'') text)"

text \<open>
  Float operations to evaluate on where nothing depends on a float: there is one float,
  it prints as \<^verbatim>\<open>0.0\<close>, and every comparison holds.
\<close>

definition stub_floats :: "unit float_ops" where
  "stub_floats =
     \<lparr>float_of_int = (\<lambda>i. Some ()),
      float_of_str = (\<lambda>s. Some ()),
      float_literal = (\<lambda>r. ()),
      float_str = (\<lambda>x. ''0.0''),
      float_round = (\<lambda>x n. ()),
      float_trunc = (\<lambda>x. Some 0),
      float_nonzero = (\<lambda>x. False),
      float_sub = (\<lambda>x y. ()),
      float_abs = (\<lambda>x. ()),
      float_le = (\<lambda>x y. True),
      float_isclose = (\<lambda>a b r t. True)\<rparr>"

text \<open>
  A payload of the shape of section 3 of the specification, class \<^verbatim>\<open>Fast Progressor\<close> with
  score \<open>5\<close>, over a type of floats with the value \<open>x\<close>.
\<close>

definition roi_entry :: "'f \<Rightarrow> 'f \<Rightarrow> 'f py" where
  "roi_entry a z = PDict [(''annual_percent_change'', PFloat a), (''z_score'', PFloat z)]"

definition example_payload :: "'f \<Rightarrow> 'f py" where
  "example_payload x =
     PDict
       [(''metadata'',
           PDict [(''age'', PInt 71), (''sex'', PStr ''F''), (''interval_years'', PFloat x)]),
        (''roi_metrics'',
           PDict [(''hippocampus'', roi_entry x x),
                  (''entorhinal_cortex'', roi_entry x x),
                  (''temporal_lobe'', roi_entry x x),
                  (''parietal_lobe'', roi_entry x x),
                  (''ventricles'', roi_entry x x)]),
        (''progression'',
           PDict [(''class'', PStr ''Fast Progressor''), (''score'', PInt 5),
                  (''rationale'', PList [PStr ''Hippocampal atrophy Z < -2.0'',
                                         PStr ''Hippocampal annual atrophy < -3.5%''])]),
        (''context_images'',
           PDict [(''jacobian_overlay'', PStr ''out/jacobian_overlay.png''),
                  (''t1_followup_slice'', PStr ''out/t1_followup_slice.png'')])]"

text \<open>
  The scenario of the specification over binary64 floats: hippocampus \<open>-4.2\<close> percent
  per year and \<open>-2.3\<close> standard deviations, every number being the float nearest to the
  decimal written.
\<close>

definition scenario_payload :: "double py" where
  "scenario_payload =
     PDict
       [(''metadata'',
           PDict [(''age'', PInt 71), (''sex'', PStr ''F''),
                  (''interval_years'', PFloat (round_to_double (3 / 2)))]),
        (''roi_metrics'',
           PDict [(''hippocampus'',
                     roi_entry (round_to_double (- (21 / 5))) (round_to_double (- (23 / 10)))),
                  (''entorhinal_cortex'',
                     roi_entry (round_to_double (- (21 / 10))) (round_to_double (- (17 / 10)))),
                  (''temporal_lobe'',
                     roi_entry (round_to_double (- (1 / 2))) (round_to_double (- (3 / 10)))),
                  (''parietal_lobe'',
                     roi_entry (round_to_double (1 / 5)) (round_to_double (1 / 10))),
                  (''ventricles'',
                     roi_entry (round_to_double (31 / 10)) (round_to_double (21 / 10)))]),
        (''progression'',
           PDict [(''class'', PStr ''Fast Progressor''), (''score'', PInt 5),
                  (''rationale'', PList [PStr ''Hippocampal atrophy Z < -2.0''])]),
        (''context_images'',
           PDict [(''jacobian_overlay'', PStr ''out/jacobian_overlay.png''),
                  (''t1_followup_slice'', PStr ''out/t1_followup_slice.png'')])]"

text \<open>
  Models to evaluate on. Their state counts the calls. The first names a forbidden term
  in every reply; the second does so in its first reply and returns no string afterwards;
  the third answers the three text stages, reporting a mismatch in the second, and never
  gives a report in JSON.
\<close>

definition example_package :: prompt_package where
  "example_package =
     \<lparr>pkg_text = ''Summarise the quantitative data.'', pkg_images = [], pkg_stage = ''stage1''\<rparr>"

definition forbidden_model :: "('f, nat) model" where
  "forbidden_model n pkg = (Text ''This indicates dementia.'', Suc n)"

definition non_string_model :: "('f, nat) model" where
  "non_string_model n pkg = (if n = 0 then Text ''This indicates dementia.'' else NonText, Suc n)"

definition mismatch_model :: "('f, nat) model" where
  "mismatch_model n pkg =
     (if n = 0 then Text ''Marked hippocampal loss.''
      else if n = 1 then Text ''The overlay Does Not Align with the numbers.''
      else if n = 2 then Text ''Verified.''
      else Text ''No report.'', Suc n)"

text \<open>
  The package that the first model is given after its first reply: the text of
  \<open>example_package\<close>, the reason for which that reply was rejected, and the requirements.
\<close>

definition repaired_package :: prompt_package where
  "repaired_package =
     \<lparr>pkg_text =
        ''Summarise the quantitative data.''
        @ [CHR 0x0A, CHR 0x0A] @ ''VALIDATION ERROR:'' @ [CHR 0x0A]
        @ ''Forbidden medical claim detected: dementia''
        @ [CHR 0x0A, CHR 0x0A] @ ''REQUIREMENTS FOR THE NEXT RESPONSE (NON-NEGOTIABLE):''
        @ [CHR 0x0A]
        @ ''1) Return ONLY valid JSON.'' @ [CHR 0x0A]
        @ ''2) Numeric values must match the provided payload EXACTLY.'' @ [CHR 0x0A]
        @ ''3) Do NOT include forbidden medical claims.'' @ [CHR 0x0A],
      pkg_images = [], pkg_stage = ''stage1''\<rparr>"

text \<open>
  The package that the third model is given after a reply that is not JSON, and the report
  that the fallback generator makes of the example payload under \<open>stub_floats\<close>.
\<close>

definition not_json_package :: prompt_package where
  "not_json_package =
     \<lparr>pkg_text =
        ''Summarise the quantitative data.''
        @ [CHR 0x0A, CHR 0x0A] @ ''VALIDATION ERROR:'' @ [CHR 0x0A]
        @ ''Model output is not valid JSON.''
        @ [CHR 0x0A, CHR 0x0A] @ ''REQUIREMENTS FOR THE NEXT RESPONSE (NON-NEGOTIABLE):''
        @ [CHR 0x0A]
        @ ''1) Return ONLY valid JSON.'' @ [CHR 0x0A]
        @ ''2) Numeric values must match the provided payload EXACTLY.'' @ [CHR 0x0A]
        @ ''3) Do NOT include forbidden medical claims.'' @ [CHR 0x0A],
      pkg_images = [], pkg_stage = ''stage1''\<rparr>"

definition example_fallback_report :: "unit py" where
  "example_fallback_report =
     PDict
       [(''roi_interpretations'',
           PDict (map (\<lambda>roi. (roi, PDict [(''annual_percent_change'', PFloat ()),
                                           (''z_score'', PFloat ()),
                                           (''interpretation'',
                                              PStr (interpretation_text stub_floats roi () ()))]))
                    ALLOWED_ROIS)),
        (''final_narrative'', PStr fallback_narrative),
        (''classification'',
           PDict [(''class'', PStr ''Fast Progressor''), (''score'', PInt 5),
                  (''rationale'', PList [PStr ''Hippocampal atrophy Z < -2.0'',
                                         PStr ''Hippocampal annual atrophy < -3.5%''])]),
        (''confidence_level'', PStr ''Low (fallback)''),
        (''warning_flag'', PNone),
        (''repair_attempted'', PBool True),
        (''fallback_used'', PBool True)]"

text \<open>\<^verbatim>\<open>v[k1][k2]...\<close>\<close>

fun py_path :: "'f py \<Rightarrow> string list \<Rightarrow> 'f exception + 'f py" where
  "py_path v [] = Inr v"
| "py_path v (k # ks) = bindE (py_getitem v k) (\<lambda>w. py_path w ks)"

text \<open>A parser to evaluate on: it accepts the empty object only.\<close>

definition loads_empty_object :: "string \<Rightarrow> 'f py option" where
  "loads_empty_object s = (if s = ''{}'' then Some (PDict []) else None)"

text \<open>
  A payload with the four top-level keys and no region at all, and prompt builders that
  return a fixed package.
\<close>

definition payload_without_regions :: "unit py" where
  "payload_without_regions =
     PDict
       [(''metadata'',
           PDict [(''age'', PInt 71), (''sex'', PStr ''F''), (''interval_years'', PFloat ())]),
        (''roi_metrics'', PDict []),
        (''progression'',
           PDict [(''class'', PStr ''Normal Progression''), (''score'', PInt 0),
                  (''rationale'', PList [])]),
        (''context_images'',
           PDict [(''jacobian_overlay'', PStr ''missing/jacobian_overlay.png''),
                  (''t1_followup_slice'', PStr ''missing/t1_followup_slice.png'')])]"

definition fixed_builder :: "'f prompt_builder" where
  "fixed_builder =
     \<lparr>build_numeric_prompt = (\<lambda>payload. Inr example_package),
      build_multimodal_prompt = (\<lambda>payload s1. Inr example_package),
      build_verification_prompt = (\<lambda>payload s1 s2. Inr example_package),
      build_simplification_prompt = (\<lambda>payload s3. Inr example_package)\<rparr>"

section \<open>Properties\<close>

subsection \<open>Loops and dicts\<close>

lemma bindE_simps [simp]: "bindE (Inl e) f = Inl e" "bindE (Inr x) f = f x"
  by (simp_all add: bindE_def)

lemma bindE_Inr_iff: "bindE m f = Inr y \<longleftrightarrow> (\<exists>x. m = Inr x \<and> f x = Inr y)"
  by (cases m) simp_all

lemma for_each_member:
  assumes "for_each body xs = Inr ()" "x \<in> set xs"
  shows "body x = Inr ()"
  using assms by (induction xs) (auto split: sum.splits)

lemma for_each_all:
  assumes "\<And>x. x \<in> set xs \<Longrightarrow> body x = Inr ()"
  shows "for_each body xs = Inr ()"
  using assms by (induction xs) simp_all

lemma py_getitem_dict: "map_of kvs k = Some v \<Longrightarrow> py_getitem (PDict kvs) k = Inr v"
  by (simp add: py_getitem_def)

lemma py_get_dict: "map_of kvs k = Some v \<Longrightarrow> py_get (PDict kvs) k d = Inr v"
  by (simp add: py_get_def)

lemma py_contains_dict: "map_of kvs k = Some v \<Longrightarrow> py_contains k (PDict kvs) = Inr True"
  by (simp add: py_contains_def)

lemma py_setitem_Inr:
  "py_setitem obj k v = Inr obj' \<Longrightarrow> \<exists>kvs. obj = PDict kvs \<and> obj' = PDict (AList.update k v kvs)"
  by (cases obj) (simp_all add: py_setitem_def)

lemma py_getitem_update_other:
  "k \<noteq> k' \<Longrightarrow> py_getitem (PDict (AList.update k v kvs)) k' = py_getitem (PDict kvs) k'"
  by (simp add: py_getitem_def update_conv')

lemma py_getitem_update_same:
  "py_getitem (PDict (AList.update k v kvs)) k = Inr v"
  by (simp add: py_getitem_def update_conv')

lemma py_get_update_same:
  "py_get (PDict (AList.update k v kvs)) k d = Inr v"
  by (simp add: py_get_def update_conv')

lemma py_get_update_other:
  "k \<noteq> k' \<Longrightarrow> py_get (PDict (AList.update k v kvs)) k' d = py_get (PDict kvs) k' d"
  by (simp add: py_get_def update_conv')

lemma is_digit_not_minus: "is_digit c \<Longrightarrow> c \<noteq> CHR ''-''"
  by (auto simp: is_digit_def)

subsection \<open>C10: tokens of the numeric pattern have two digits\<close>

lemma filter_takeWhile_digits: "filter is_digit (takeWhile is_digit xs) = takeWhile is_digit xs"
  by (induction xs) simp_all

lemma match_number_two_digits:
  assumes "match_number s = Some (tok, rest)"
  shows "2 \<le> length (filter is_digit tok)"
proof -
  obtain sgn s1 where sp: "(case s of [] \<Rightarrow> ([], s) | c # r \<Rightarrow> if c = CHR ''-'' then ([c], r) else ([], s))
      = (sgn, s1)" by (cases "case s of [] \<Rightarrow> ([], s) | c # r \<Rightarrow> if c = CHR ''-'' then ([c], r) else ([], s)")
  then have sg: "filter is_digit sgn = []"
    by (auto simp: is_digit_def split: list.splits if_splits)
  let ?ds = "takeWhile is_digit s1"
  let ?r1 = "dropWhile is_digit s1"
  let ?fs = "case ?r1 of [] \<Rightarrow> [] | c # r2 \<Rightarrow> if c = CHR ''.'' then takeWhile is_digit r2 else []"
  have fs: "filter is_digit ?fs = ?fs"
    by (auto simp: filter_takeWhile_digits split: list.splits)
  from assms sp have m: "(if ?ds = [] then None
         else if ?fs \<noteq> [] then Some (sgn @ ?ds @ CHR ''.'' # ?fs, dropWhile is_digit (tl ?r1))
         else if 2 \<le> length ?ds then Some (sgn @ ?ds, ?r1)
         else None) = Some (tok, rest)"
    by (simp add: match_number_def Let_def)
  show ?thesis
  proof (cases "?fs \<noteq> []")
    case True
    with m have ne: "?ds \<noteq> []" and tok: "tok = sgn @ ?ds @ CHR ''.'' # ?fs"
      by (auto split: if_splits)
    have "filter is_digit tok = ?ds @ ?fs"
      unfolding tok by (simp add: sg filter_takeWhile_digits fs is_digit_def del: takeWhile.simps)
    moreover have "1 \<le> length ?ds" "1 \<le> length ?fs"
      using ne True by (simp_all add: Suc_le_eq)
    ultimately show ?thesis by simp
  next
    case False
    with m have len: "2 \<le> length ?ds" and tok: "tok = sgn @ ?ds"
      by (auto split: if_splits)
    have "filter is_digit tok = ?ds"
      unfolding tok by (simp add: sg filter_takeWhile_digits)
    with len show ?thesis by simp
  qed
qed

lemma findall_numbers_two_digits:
  "tok \<in> set (findall_numbers s) \<Longrightarrow> 2 \<le> length (filter is_digit tok)"
proof (induction s rule: findall_numbers.induct)
  case 1
  then show ?case by simp
next
  case (2 c cs)
  show ?case
  proof (cases "match_number (c # cs)")
    case None
    with 2 show ?thesis by simp
  next
    case (Some a)
    obtain t rest where a: "a = (t, rest)" by (cases a)
    with Some 2 show ?thesis
      by (auto dest: match_number_two_digits)
  qed
qed

lemma match_number_unsigned:
  "match_number s =
     (case s of
        [] \<Rightarrow> None
      | c # r \<Rightarrow> if c = CHR ''-''
                 then map_option (\<lambda>(t, rest). (CHR ''-'' # t, rest)) (match_unsigned r)
                 else match_unsigned (c # r))"
  by (cases s) (simp_all add: match_number_def match_unsigned_def Let_def)

lemma left_ok_suffix: "left_ok (xs @ ys) \<Longrightarrow> left_ok ys"
  by (cases "rev ys"; cases "tl (rev ys)"; cases "rev xs")
     (auto simp: left_ok_def split: list.splits)

lemma left_ok_last: "left_ok u \<Longrightarrow> u \<noteq> [] \<Longrightarrow> \<not> is_digit (last u)"
  by (cases u rule: rev_cases) (auto simp: left_ok_def)

lemma left_ok_digit_point:
  assumes "left_ok (ds @ [CHR ''.''])" "ds \<noteq> []"
  shows "\<not> is_digit (last ds)"
  using assms by (cases ds rule: rev_cases) (auto simp: left_ok_def)

lemma takeWhile_digits_ext:
  assumes "u \<noteq> []" "\<not> is_digit (last u)"
  shows "takeWhile is_digit (u @ e) = takeWhile is_digit u"
    and "dropWhile is_digit (u @ e) = dropWhile is_digit u @ e"
    and "dropWhile is_digit u \<noteq> []"
proof -
  from assms have ex: "\<exists>x \<in> set u. \<not> is_digit x" using last_in_set by blast
  then show "takeWhile is_digit (u @ e) = takeWhile is_digit u"
    by (metis takeWhile_append1 )
  from ex show "dropWhile is_digit (u @ e) = dropWhile is_digit u @ e"
    by (metis dropWhile_append1)
  from ex show "dropWhile is_digit u \<noteq> []"
    by (simp add: dropWhile_eq_Nil_conv)
qed

lemma match_unsigned_alone:
  assumes "is_digit d" "right_ok post"
  shows "match_unsigned (d # post) = None"
proof -
  from assms(2) have t: "takeWhile is_digit post = []" and dr: "dropWhile is_digit post = post"
    by (cases post; simp add: right_ok_def)+
  from assms(2) have fs: "(case post of [] \<Rightarrow> [] | c # r2 \<Rightarrow>
      if c = CHR ''.'' then takeWhile is_digit r2 else []) = []"
    by (cases post; cases "tl post") (auto simp: right_ok_def)
  show ?thesis
    using assms(1) by (simp add: match_unsigned_def Let_def t dr fs)
qed

lemma match_unsigned_ext:
  assumes "left_ok u" "u \<noteq> []"
  shows "match_unsigned (u @ e) = map_option (\<lambda>(t, r). (t, r @ e)) (match_unsigned u)"
    and "match_unsigned u = Some (t, r) \<Longrightarrow> left_ok r"
proof -
  let ?ds = "takeWhile is_digit u"
  let ?r1 = "dropWhile is_digit u"
  from assms have nd: "\<not> is_digit (last u)" by (rule left_ok_last)
  note ext = takeWhile_digits_ext [OF assms(2) nd]
  from ext(3) obtain c r2 where r1: "?r1 = c # r2" by (cases ?r1) auto
  have u: "u = ?ds @ c # r2" using r1 by (metis takeWhile_dropWhile_id)
  have lr2: "left_ok (c # r2)" using assms(1) u left_ok_suffix by metis
  show "match_unsigned (u @ e) = map_option (\<lambda>(t, r). (t, r @ e)) (match_unsigned u)"
  proof (cases "c = CHR ''.'' \<and> ?ds \<noteq> []")
    case False
    then show ?thesis
      by (auto simp: match_unsigned_def Let_def ext(1,2) r1)
  next
    case True
    have r2ne: "r2 \<noteq> []"
    proof
      assume "r2 = []"
      with u True have "u = ?ds @ [CHR ''.'']" by simp
      with assms(1) True have "\<not> is_digit (last ?ds)" using left_ok_digit_point by metis
      moreover have "is_digit (last ?ds)"
        using True by (metis last_in_set set_takeWhileD)
      ultimately show False by simp
    qed
    have "last r2 = last u" using u r2ne by (metis last_appendR last_ConsR list.distinct(1))
    with nd have nd2: "\<not> is_digit (last r2)" by simp
    note ext2 = takeWhile_digits_ext [OF r2ne nd2]
    show ?thesis
      using True by (simp add: match_unsigned_def Let_def ext(1,2) r1 ext2(1,2))
  qed
  show "left_ok r" if m: "match_unsigned u = Some (t, r)"
  proof -
    from m have "r = ?r1 \<or> r = dropWhile is_digit (tl ?r1)"
      by (auto simp: match_unsigned_def Let_def split: if_splits)
    then show ?thesis
    proof
      assume "r = ?r1"
      with r1 lr2 show ?thesis by simp
    next
      assume r: "r = dropWhile is_digit (tl ?r1)"
      have "r2 = takeWhile is_digit r2 @ dropWhile is_digit r2" by simp
      with lr2 have "left_ok (dropWhile is_digit r2)"
        using left_ok_suffix [of "c # takeWhile is_digit r2" "dropWhile is_digit r2"] by simp
      with r r1 show ?thesis by simp
    qed
  qed
qed

lemma match_number_ext:
  assumes "left_ok (c # cs)"
  shows "match_number ((c # cs) @ e) = map_option (\<lambda>(t, r). (t, r @ e)) (match_number (c # cs))
           \<or> cs = [] \<and> c = CHR ''-''"
    and "match_number (c # cs) = Some (t, r) \<Longrightarrow> left_ok r"
proof -
  have lcs: "left_ok cs" using assms left_ok_suffix [of "[c]" cs] by simp
  show "match_number ((c # cs) @ e) = map_option (\<lambda>(t, r). (t, r @ e)) (match_number (c # cs))
           \<or> cs = [] \<and> c = CHR ''-''"
  proof (cases "c = CHR ''-''")
    case True
    show ?thesis
    proof (cases "cs = []")
      case True
      with \<open>c = CHR ''-''\<close> show ?thesis by simp
    next
      case False
      from match_unsigned_ext(1) [OF lcs False, of e] True show ?thesis
        by (simp add: match_number_unsigned option.map_comp comp_def split_def)
    qed
  next
    case False
    from match_unsigned_ext(1) [OF assms, of e] False show ?thesis
      by (simp add: match_number_unsigned)
  qed
  show "left_ok r" if m: "match_number (c # cs) = Some (t, r)"
  proof (cases "c = CHR ''-''")
    case True
    with m obtain t' where m': "match_unsigned cs = Some (t', r)"
      by (auto simp: match_number_unsigned)
    then have "cs \<noteq> []" by (auto simp: match_unsigned_def)
    from match_unsigned_ext(2) [OF lcs this m'] show ?thesis .
  next
    case False
    with m have "match_unsigned (c # cs) = Some (t, r)" by (simp add: match_number_unsigned)
    from match_unsigned_ext(2) [OF assms _ this] show ?thesis by simp
  qed
qed

lemma findall_numbers_alone:
  assumes "is_digit d" "right_ok post"
  shows "left_ok pre \<Longrightarrow> findall_numbers (pre @ d # post) = findall_numbers pre @ findall_numbers post"
proof (induction pre rule: findall_numbers.induct)
  case 1
  from assms have "match_number (d # post) = None"
    by (simp add: match_number_unsigned match_unsigned_alone is_digit_not_minus)
  then show ?case by simp
next
  case (2 c cs)
  have lcs: "left_ok cs" using "2.prems" left_ok_suffix [of "[c]" cs] by simp
  show ?case
  proof (cases "cs = [] \<and> c = CHR ''-''")
    case True
    have a: "match_number (CHR ''-'' # d # post) = None"
      using assms by (simp add: match_number_unsigned match_unsigned_alone)
    have b: "match_number (d # post) = None"
      using assms by (simp add: match_number_unsigned match_unsigned_alone is_digit_not_minus)
    have c: "match_number [CHR ''-''] = None" by (simp add: match_number_def)
    from True show ?thesis by (simp add: a b c)
  next
    case False
    with match_number_ext(1) [OF "2.prems", of "d # post"]
    have m: "match_number ((c # cs) @ d # post)
        = map_option (\<lambda>(t, r). (t, r @ d # post)) (match_number (c # cs))" by blast
    show ?thesis
    proof (cases "match_number (c # cs)")
      case None
      with m have "match_number (c # cs @ d # post) = None" by simp
      with None "2.IH"(1) [OF None lcs] show ?thesis by simp
    next
      case (Some a)
      obtain t r where a: "a = (t, r)" by (cases a)
      with Some have s: "match_number (c # cs) = Some (t, r)" by simp
      from match_number_ext(2) [OF "2.prems" s] have lr: "left_ok r" .
      from m s have "match_number (c # cs @ d # post) = Some (t, r @ d # post)" by simp
      with s "2.IH"(2) [OF Some a [symmetric] lr] show ?thesis by simp
    qed
  qed
qed

lemma map_filter_append:
  "List.map_filter f (xs @ ys) = List.map_filter f xs @ List.map_filter f ys"
  by (simp add: List.map_filter_def)

text \<open>
  C10. The pattern \<^verbatim>\<open>-?\d+\.?\d+\<close> reports only tokens with at least two digit characters.
  Hence a digit that stands alone in a string (no digit next to it, none across a decimal
  point) contributes nothing: the numbers found in the string, by the scan of the final
  object and by the construction of the allow-list alike, are those found before the digit
  followed by those found after it, whatever \<^verbatim>\<open>float\<close> makes of a token.
\<close>

theorem standalone_digit_never_extracted:
  assumes "standalone_digit pre d post"
  shows "(\<forall>tok \<in> set (findall_numbers (pre @ d # post)). 2 \<le> length (filter is_digit tok))
       \<and> numbers_in_text fl (pre @ d # post) = numbers_in_text fl pre @ numbers_in_text fl post
       \<and> extract_numbers_from_jsonish fl (PStr pre) = Inr (numbers_in_text fl pre)
       \<and> extract_numbers_from_jsonish fl (PStr post) = Inr (numbers_in_text fl post)
       \<and> extract_numbers_from_jsonish fl (PStr (pre @ d # post))
           = Inr (numbers_in_text fl pre @ numbers_in_text fl post)"
proof -
  from assms have d: "is_digit d" and l: "left_ok pre" and r: "right_ok post"
    by (simp_all add: standalone_digit_def)
  have split: "findall_numbers (pre @ d # post) = findall_numbers pre @ findall_numbers post"
    using d r l by (rule findall_numbers_alone)
  then have "numbers_in_text fl (pre @ d # post) = numbers_in_text fl pre @ numbers_in_text fl post"
    by (simp add: numbers_in_text_def map_filter_append)
  then show ?thesis
    by (simp add: findall_numbers_two_digits)
qed

theorem standalone_digit_never_extracted_witness:
  "standalone_digit ''Z < '' CHR ''7'' '' and -2.0''
   \<and> numbers_in_text stub_floats ''Z < 7 and -2.0''
       = numbers_in_text stub_floats ''Z < '' @ numbers_in_text stub_floats '' and -2.0''
   \<and> extract_numbers_from_jsonish stub_floats (PStr ''7'') = Inr []"
proof -
  have a: "standalone_digit ''Z < '' CHR ''7'' '' and -2.0''"
    by (simp add: standalone_digit_def left_ok_def right_ok_def is_digit_def)
  have b: "standalone_digit [] CHR ''7'' []"
    by (simp add: standalone_digit_def left_ok_def right_ok_def is_digit_def)
  have e: "numbers_in_text stub_floats [] = []"
    by (simp add: numbers_in_text_def List.map_filter_simps)
  from standalone_digit_never_extracted [OF a, of stub_floats]
    standalone_digit_never_extracted [OF b, of stub_floats] a e
  show ?thesis by simp
qed

subsection \<open>C2: the tolerance in binary64 arithmetic\<close>

lemma binary64_ops [simp]:
  "float_literal (binary64 fl) = round_to_double"
  "float_sub (binary64 fl) = ieee_sub"
  "float_abs (binary64 fl) = ieee_abs"
  "float_le (binary64 fl) = ieee_le"
  "float_isclose (binary64 fl) = ieee_isclose"
  "float_str (binary64 fl) = float_str fl"
  "float_of_int (binary64 fl) = float_of_int fl"
  "float_of_str (binary64 fl) = float_of_str fl"
  by (simp_all add: binary64_def)

lemma round_to_double_zero: "round_to_double 0 = Finite 0"
  by (simp add: round_to_double_def)

lemma tolerance_double:
  "round_to_double (5 / 100) = Finite (3602879701896397 / 72057594037927936)"
  by code_simp

lemma literal_0501:
  "round_to_double (501 / 10000) = Finite (7220170922600379 / 144115188075855872)"
  by code_simp

lemma NUMERIC_TOLERANCE_binary64:
  "NUMERIC_TOLERANCE (binary64 fl) = Finite (3602879701896397 / 72057594037927936)"
  using tolerance_double by (simp add: NUMERIC_TOLERANCE_def)

text \<open>
  For finite floats and a tolerance that is not negative, \<^verbatim>\<open>math.isclose\<close> with
  \<^verbatim>\<open>rel_tol=0.0\<close> is the comparison of the computed difference with the tolerance.
\<close>

lemma ieee_le_zero_tol:
  assumes "ieee_le d (Finite 0)" "0 \<le> t"
  shows "ieee_le d (Finite t)"
  using assms by (auto simp: ieee_le_def is_finite_def value_of_def split: double.splits)

lemma zero_times_finite:
  assumes "is_finite b"
  shows "ieee_abs (ieee_mul (Finite 0) b) = Finite 0"
  using assms
  by (cases b) (auto simp: ieee_mul_def ieee_abs_def is_finite_def is_infinite_def value_of_def
      negative_def)

lemma finite_difference_of_equals:
  assumes "is_finite a" "is_finite b" "value_of a = value_of b"
  shows "ieee_abs (ieee_sub b a) = Finite 0"
  using assms
  by (cases a; cases b)
     (auto simp: ieee_sub_def ieee_add_def ieee_neg_def ieee_abs_def is_finite_def
        is_infinite_def value_of_def negative_def Let_def)

lemma isclose_finite:
  assumes "is_finite a" "is_finite b" "0 \<le> t"
  shows "ieee_isclose a b (Finite 0) (Finite t) \<longleftrightarrow> ieee_le (ieee_abs (ieee_sub b a)) (Finite t)"
proof (cases "value_of a = value_of b")
  case True
  with assms have eq: "ieee_eq a b"
    by (cases a; cases b) (auto simp: ieee_eq_def is_finite_def)
  from finite_difference_of_equals [OF assms(1,2) True] assms(3)
  have "ieee_le (ieee_abs (ieee_sub b a)) (Finite t)"
    by (simp add: ieee_le_def is_finite_def value_of_def)
  with eq show ?thesis by (simp add: ieee_isclose_def)
next
  case False
  with assms have neq: "\<not> ieee_eq a b"
    by (cases a; cases b) (auto simp: ieee_eq_def is_finite_def)
  from assms have fin: "\<not> is_infinite a" "\<not> is_infinite b"
    by (auto simp: is_finite_def is_infinite_def)
  show ?thesis
    using ieee_le_zero_tol [OF _ assms(3)]
    by (auto simp: ieee_isclose_def neq fin Let_def zero_times_finite assms(1,2))
qed

lemma check_roi_binary64:
  assumes "roi_metric p roi ''annual_percent_change'' = Inr (PFloat x)"
    and "roi_metric p roi ''z_score'' = Inr (PFloat y)"
    and "map_of blk roi = Some (PDict e)"
    and "map_of e ''annual_percent_change'' = Some (PFloat v)"
    and "map_of e ''z_score'' = Some (PFloat w)"
  shows "check_roi (binary64 fl) (PDict blk) p roi =
           (if \<not> ieee_isclose v x (Finite 0) (Finite (3602879701896397 / 72057594037927936))
            then Inl (ValueError (''Numeric mismatch for '' @ roi
                   @ '' annual_percent_change: reported '' @ float_str fl v @ '' vs payload ''
                   @ float_str fl x))
            else if \<not> ieee_isclose w y (Finite 0) (Finite (3602879701896397 / 72057594037927936))
            then Inl (ValueError (''Numeric mismatch for '' @ roi
                   @ '' z_score: reported '' @ float_str fl w @ '' vs payload '' @ float_str fl y))
            else Inr ())"
proof -
  have c: "py_contains roi (PDict blk) = Inr True" using assms(3) by (rule py_contains_dict)
  have g: "py_getitem (PDict blk) roi = Inr (PDict e)" using assms(3) by (rule py_getitem_dict)
  have inner: "for_each
      (\<lambda>nk.
         bindE (py_contains nk (PDict e)) (\<lambda>has.
         if \<not> has then Inl (ValueError (''Missing numeric key '' @ nk @ '' for ROI '' @ roi))
         else
           bindE (if nk = ''annual_percent_change''
                  then roi_metric p roi ''annual_percent_change''
                  else roi_metric p roi ''z_score'') (\<lambda>pv.
           bindE (py_float (binary64 fl) pv) (\<lambda>payload_val.
           bindE (py_getitem (PDict e) nk) (\<lambda>reported.
           bindE (py_float (binary64 fl) reported) (\<lambda>r.
           if \<not> float_isclose (binary64 fl) r payload_val (float_literal (binary64 fl) 0)
                  (NUMERIC_TOLERANCE (binary64 fl))
           then Inl (ValueError (''Numeric mismatch for '' @ roi @ '' '' @ nk @ '': reported ''
                                  @ py_str (binary64 fl) reported @ '' vs payload ''
                                  @ float_str (binary64 fl) payload_val))
           else Inr ()))))))
      [''annual_percent_change'', ''z_score'']
    = (if \<not> ieee_isclose v x (Finite 0) (Finite (3602879701896397 / 72057594037927936))
            then Inl (ValueError (''Numeric mismatch for '' @ roi
                   @ '' annual_percent_change: reported '' @ float_str fl v @ '' vs payload ''
                   @ float_str fl x))
            else if \<not> ieee_isclose w y (Finite 0) (Finite (3602879701896397 / 72057594037927936))
            then Inl (ValueError (''Numeric mismatch for '' @ roi
                   @ '' z_score: reported '' @ float_str fl w @ '' vs payload '' @ float_str fl y))
            else Inr ())"
    by (simp add: py_contains_dict py_getitem_dict assms(1,2,4,5) py_float_def py_str_def
        NUMERIC_TOLERANCE_binary64 round_to_double_zero)
  show ?thesis
    unfolding check_roi_def by (simp only: c g bindE_simps inner not_True_eq_False if_False)
qed

lemma validate_final_json_roi:
  assumes "validate_final_json fl (PDict obj) p = Inr ()"
    and "map_of obj ''roi_interpretations'' = Some roi_block" "roi \<in> set ALLOWED_ROIS"
  shows "check_roi fl roi_block p roi = Inr ()"
proof -
  have g: "py_getitem (PDict obj) ''roi_interpretations'' = Inr roi_block"
    using assms(2) by (rule py_getitem_dict)
  from assms(1) have "for_each (check_roi fl roi_block p) ALLOWED_ROIS = Inr ()"
    unfolding validate_final_json_def by (auto simp: bindE_Inr_iff g)
  then show ?thesis using assms(3) by (rule for_each_member)
qed

lemma numbers_within_allowed_None_iff:
  "numbers_within_allowed fl found allowed = None
     \<longleftrightarrow> (\<forall>n \<in> set found. \<exists>a \<in> set allowed.
            float_le fl (float_abs fl (float_sub fl n a)) (NUMERIC_TOLERANCE fl))"
  by (induction found) (auto simp: list_ex_iff)

lemma numbers_within_allowed_first:
  assumes "\<forall>a \<in> set allowed. \<not> float_le fl (float_abs fl (float_sub fl n a)) (NUMERIC_TOLERANCE fl)"
  shows "numbers_within_allowed fl (n # rest) allowed = Some n"
  using assms by (simp add: list_ex_iff)

text \<open>
  C2, as amended. In the final-stage validator, for finite floats, a reported number is
  accepted exactly when the difference between the payload's number and it, computed in
  binary64 and taken in absolute value, is at most the float of the literal \<^verbatim>\<open>0.05\<close>,
  which is \<open>3602879701896397 / 2\<^sup>5\<^sup>6\<close>; otherwise the check raises the mismatch error and
  the validator as a whole cannot accept the object. The bound is inclusive: a computed
  difference that is the float of \<^verbatim>\<open>0.05\<close> is accepted, and one that is the float of
  \<^verbatim>\<open>0.0501\<close> is rejected. The test against the allow-list is the same comparison: a
  found number is authorized exactly when its computed distance to some allowed value is
  at most that float.
\<close>

theorem tolerance_boundary_binary64:
  assumes "roi \<in> set ALLOWED_ROIS"
    and "roi_metric p roi ''annual_percent_change'' = Inr (PFloat x)"
    and "roi_metric p roi ''z_score'' = Inr (PFloat y)"
    and "map_of obj ''roi_interpretations'' = Some (PDict blk)"
    and "map_of blk roi = Some (PDict e)"
    and "map_of e ''annual_percent_change'' = Some (PFloat v)"
    and "map_of e ''z_score'' = Some (PFloat w)"
    and "is_finite x" "is_finite y" "is_finite v" "is_finite w"
  shows "NUMERIC_TOLERANCE (binary64 fl) = Finite (3602879701896397 / 72057594037927936)
       \<and> check_roi (binary64 fl) (PDict blk) p roi
           = (if \<not> ieee_le (ieee_abs (ieee_sub x v)) (NUMERIC_TOLERANCE (binary64 fl))
              then Inl (ValueError (''Numeric mismatch for '' @ roi
                     @ '' annual_percent_change: reported '' @ float_str fl v @ '' vs payload ''
                     @ float_str fl x))
              else if \<not> ieee_le (ieee_abs (ieee_sub y w)) (NUMERIC_TOLERANCE (binary64 fl))
              then Inl (ValueError (''Numeric mismatch for '' @ roi
                     @ '' z_score: reported '' @ float_str fl w @ '' vs payload ''
                     @ float_str fl y))
              else Inr ())
       \<and> (check_roi (binary64 fl) (PDict blk) p roi \<noteq> Inr ()
          \<longrightarrow> validate_final_json (binary64 fl) (PDict obj) p \<noteq> Inr ())
       \<and> (numbers_within_allowed (binary64 fl) found allowed = None
          \<longleftrightarrow> (\<forall>n \<in> set found. \<exists>a \<in> set allowed.
                 ieee_le (ieee_abs (ieee_sub n a)) (NUMERIC_TOLERANCE (binary64 fl))))
       \<and> (d = Finite t
          \<longrightarrow> (ieee_le d (NUMERIC_TOLERANCE (binary64 fl))
               \<longleftrightarrow> t \<le> 3602879701896397 / 72057594037927936))
       \<and> ieee_le (round_to_double (5 / 100)) (NUMERIC_TOLERANCE (binary64 fl))
       \<and> \<not> ieee_le (round_to_double (501 / 10000)) (NUMERIC_TOLERANCE (binary64 fl))"
proof -
  let ?tol = "Finite (3602879701896397 / 72057594037927936)"
  note tol = NUMERIC_TOLERANCE_binary64 [of fl]
  have pos: "(0 :: rat) \<le> 3602879701896397 / 72057594037927936" by simp
  have cv: "ieee_isclose v x (Finite 0) ?tol \<longleftrightarrow> ieee_le (ieee_abs (ieee_sub x v)) ?tol"
    using assms(10,8) pos by (rule isclose_finite)
  have cw: "ieee_isclose w y (Finite 0) ?tol \<longleftrightarrow> ieee_le (ieee_abs (ieee_sub y w)) ?tol"
    using assms(11,9) pos by (rule isclose_finite)
  have 1: "check_roi (binary64 fl) (PDict blk) p roi
           = (if \<not> ieee_le (ieee_abs (ieee_sub x v)) (NUMERIC_TOLERANCE (binary64 fl))
              then Inl (ValueError (''Numeric mismatch for '' @ roi
                     @ '' annual_percent_change: reported '' @ float_str fl v @ '' vs payload ''
                     @ float_str fl x))
              else if \<not> ieee_le (ieee_abs (ieee_sub y w)) (NUMERIC_TOLERANCE (binary64 fl))
              then Inl (ValueError (''Numeric mismatch for '' @ roi
                     @ '' z_score: reported '' @ float_str fl w @ '' vs payload ''
                     @ float_str fl y))
              else Inr ())"
    unfolding tol check_roi_binary64 [OF assms(2,3,5,6,7)] cv cw ..
  have 2: "check_roi (binary64 fl) (PDict blk) p roi \<noteq> Inr ()
          \<longrightarrow> validate_final_json (binary64 fl) (PDict obj) p \<noteq> Inr ()"
    using validate_final_json_roi [OF _ assms(4,1)] by blast
  have 3: "numbers_within_allowed (binary64 fl) found allowed = None
          \<longleftrightarrow> (\<forall>n \<in> set found. \<exists>a \<in> set allowed.
                 ieee_le (ieee_abs (ieee_sub n a)) (NUMERIC_TOLERANCE (binary64 fl)))"
    by (simp add: numbers_within_allowed_None_iff)
  have 4: "d = Finite t
          \<longrightarrow> (ieee_le d (NUMERIC_TOLERANCE (binary64 fl))
               \<longleftrightarrow> t \<le> 3602879701896397 / 72057594037927936)"
    unfolding tol by (simp add: ieee_le_def is_finite_def value_of_def)
  have 5: "ieee_le (round_to_double (5 / 100)) (NUMERIC_TOLERANCE (binary64 fl))"
    unfolding tol tolerance_double by (simp add: ieee_le_def is_finite_def value_of_def)
  have 6: "\<not> ieee_le (round_to_double (501 / 10000)) (NUMERIC_TOLERANCE (binary64 fl))"
    unfolding tol literal_0501 by (simp add: ieee_le_def is_finite_def value_of_def)
  from tol 1 2 3 4 5 6 show ?thesis by (intro conjI)
qed

subsection \<open>The tolerance on the scenario of the specification\<close>

lemma scenario_metrics:
  "roi_metric scenario_payload ''hippocampus'' ''annual_percent_change''
     = Inr (PFloat (round_to_double (- (21 / 5))))"
  "roi_metric scenario_payload ''hippocampus'' ''z_score''
     = Inr (PFloat (round_to_double (- (23 / 10))))"
  "roi_metric scenario_payload ''parietal_lobe'' ''annual_percent_change''
     = Inr (PFloat (round_to_double (1 / 5)))"
  "roi_metric scenario_payload ''parietal_lobe'' ''z_score''
     = Inr (PFloat (round_to_double (1 / 10)))"
  by (simp_all add: scenario_payload_def roi_metric_def py_getitem_def roi_entry_def)

lemma scenario_floats:
  "is_finite (round_to_double (1 / 5))"
  "is_finite (round_to_double (1 / 10))"
  "is_finite (round_to_double (1 / 20))"
  by code_simp+

lemma scenario_distances:
  "ieee_abs (ieee_sub (round_to_double (1 / 10)) (round_to_double (1 / 20)))
     = Finite (3602879701896397 / 72057594037927936)"
  "ieee_abs (ieee_sub (round_to_double (1 / 5)) (round_to_double (1 / 5))) = Finite 0"
  "ieee_abs (ieee_sub (round_to_double (1 / 20)) (round_to_double (1 / 10)))
     = Finite (3602879701896397 / 72057594037927936)"
  "ieee_abs (ieee_sub (Finite 0) (round_to_double (501 / 10000)))
     = Finite (7220170922600379 / 144115188075855872)"
  by code_simp+

theorem tolerance_boundary_binary64_witness:
  "\<forall>fl. ieee_abs (ieee_sub (round_to_double (1 / 10)) (round_to_double (1 / 20)))
          = Finite (3602879701896397 / 72057594037927936)
      \<and> check_roi (binary64 fl)
          (PDict [(''parietal_lobe'',
                     PDict [(''annual_percent_change'', PFloat (round_to_double (1 / 5))),
                            (''z_score'', PFloat (round_to_double (1 / 20)))])])
          scenario_payload ''parietal_lobe'' = Inr ()
      \<and> numbers_within_allowed (binary64 fl) [round_to_double (1 / 20)] [round_to_double (1 / 10)]
          = None
      \<and> ieee_abs (ieee_sub (Finite 0) (round_to_double (501 / 10000)))
          = Finite (7220170922600379 / 144115188075855872)
      \<and> \<not> ieee_le (ieee_abs (ieee_sub (Finite 0) (round_to_double (501 / 10000))))
            (NUMERIC_TOLERANCE (binary64 fl))"
proof -
  {
    fix fl :: "double float_ops"
    let ?e = "[(''annual_percent_change'', PFloat (round_to_double (1 / 5))),
               (''z_score'', PFloat (round_to_double (1 / 20)))]"
    let ?blk = "[(''parietal_lobe'', PDict ?e)]"
    let ?obj = "[(''roi_interpretations'', PDict ?blk)]"
    let ?tol = "Finite (3602879701896397 / 72057594037927936)"
    have roi: "''parietal_lobe'' \<in> set ALLOWED_ROIS" by (simp add: ALLOWED_ROIS_def)
    have o: "map_of ?obj ''roi_interpretations'' = Some (PDict ?blk)" by simp
    have b: "map_of ?blk ''parietal_lobe'' = Some (PDict ?e)" by simp
    have ea: "map_of ?e ''annual_percent_change'' = Some (PFloat (round_to_double (1 / 5)))"
      by simp
    have ez: "map_of ?e ''z_score'' = Some (PFloat (round_to_double (1 / 20)))" by simp
    note t = tolerance_boundary_binary64 [OF roi scenario_metrics(3,4) o b ea ez
        scenario_floats(1,2,1,3), where fl = fl]
    note t1 = t [where found = "[round_to_double (1 / 20)]" and allowed = "[round_to_double (1 / 10)]"
        and d = "ieee_abs (ieee_sub (round_to_double (1 / 10)) (round_to_double (1 / 20)))"]
    note t2 = t [where d = "ieee_abs (ieee_sub (Finite 0) (round_to_double (501 / 10000)))"
        and t = "7220170922600379 / 144115188075855872"]
    from t1 have tol: "NUMERIC_TOLERANCE (binary64 fl) = ?tol" by (rule conjunct1)
    from t1 have le: "ieee_le (ieee_abs (ieee_sub (round_to_double (1 / 10))
        (round_to_double (1 / 20)))) (NUMERIC_TOLERANCE (binary64 fl))"
      using scenario_distances(1) by blast
    have le0: "ieee_le (Finite 0) ?tol" by (simp add: ieee_le_def is_finite_def value_of_def)
    from t1 have chk: "check_roi (binary64 fl) (PDict ?blk) scenario_payload ''parietal_lobe''
        = Inr ()"
      using le le0 by (simp add: scenario_distances(2) tol)
    from t1 le have nw: "numbers_within_allowed (binary64 fl) [round_to_double (1 / 20)]
        [round_to_double (1 / 10)] = None"
      by (simp add: scenario_distances(1,3) tol)
    have big: "\<not> (7220170922600379 :: rat) / 144115188075855872
        \<le> 3602879701896397 / 72057594037927936" by simp
    from t2 scenario_distances(4) big
    have rej: "\<not> ieee_le (ieee_abs (ieee_sub (Finite 0) (round_to_double (501 / 10000))))
        (NUMERIC_TOLERANCE (binary64 fl))" by blast
    from scenario_distances(1,4) chk nw rej
    have "ieee_abs (ieee_sub (round_to_double (1 / 10)) (round_to_double (1 / 20)))
          = Finite (3602879701896397 / 72057594037927936)
      \<and> check_roi (binary64 fl) (PDict ?blk) scenario_payload ''parietal_lobe'' = Inr ()
      \<and> numbers_within_allowed (binary64 fl) [round_to_double (1 / 20)] [round_to_double (1 / 10)]
          = None
      \<and> ieee_abs (ieee_sub (Finite 0) (round_to_double (501 / 10000)))
          = Finite (7220170922600379 / 144115188075855872)
      \<and> \<not> ieee_le (ieee_abs (ieee_sub (Finite 0) (round_to_double (501 / 10000))))
            (NUMERIC_TOLERANCE (binary64 fl))"
      by (intro conjI)
  }
  then show ?thesis by blast
qed

lemma decimal_boundary_floats:
  "ieee_isclose (round_to_double (- (83 / 20))) (round_to_double (- (21 / 5))) (Finite 0)
     (Finite (3602879701896397 / 72057594037927936))"
  "\<not> ieee_isclose (round_to_double (- (47 / 20))) (round_to_double (- (23 / 10))) (Finite 0)
       (Finite (3602879701896397 / 72057594037927936))"
  "\<not> ieee_le (ieee_abs (ieee_sub (round_to_double (21 / 20)) (round_to_double 1)))
       (Finite (3602879701896397 / 72057594037927936))"
  "ieee_abs (ieee_sub (round_to_double (- (23 / 10))) (round_to_double (- (47 / 20))))
     = Finite (112589990684263 / 2251799813685248)"
  "ieee_abs (ieee_sub (round_to_double (21 / 20)) (round_to_double 1))
     = Finite (225179981368525 / 4503599627370496)"
  by code_simp+

text \<open>
  C2 as stated fails: no two floats are exactly \<open>0.05\<close> apart, and a reported number
  whose decimal is exactly \<open>0.05\<close> away from the payload's may be rejected. The report says
  \<^verbatim>\<open>-4.15\<close> and \<^verbatim>\<open>-2.35\<close> for the hippocampus, the payload \<^verbatim>\<open>-4.2\<close> and \<^verbatim>\<open>-2.3\<close>: the
  first number passes, and the second is rejected, its computed distance being
  \<open>0.050000000000000266\<close>. In the same way \<^verbatim>\<open>1.05\<close> is not authorized by an allow-list
  that holds \<^verbatim>\<open>1.0\<close>.
\<close>

theorem decimal_boundary_counterexample:
  "\<forall>fl. \<bar>- (47 / 20) - (- (23 / 10))\<bar> = (5 / 100 :: rat)
      \<and> ieee_abs (ieee_sub (round_to_double (- (23 / 10))) (round_to_double (- (47 / 20))))
          = Finite (112589990684263 / 2251799813685248)
      \<and> check_roi (binary64 fl)
          (PDict [(''hippocampus'',
                     PDict [(''annual_percent_change'', PFloat (round_to_double (- (83 / 20)))),
                            (''z_score'', PFloat (round_to_double (- (47 / 20))))])])
          scenario_payload ''hippocampus''
          = Inl (ValueError (''Numeric mismatch for hippocampus z_score: reported ''
                   @ float_str fl (round_to_double (- (47 / 20))) @ '' vs payload ''
                   @ float_str fl (round_to_double (- (23 / 10)))))
      \<and> \<bar>21 / 20 - 1\<bar> = (5 / 100 :: rat)
      \<and> numbers_within_allowed (binary64 fl) [round_to_double (21 / 20)] [round_to_double 1]
          = Some (round_to_double (21 / 20))"
proof -
  {
    fix fl :: "double float_ops"
    let ?e = "[(''annual_percent_change'', PFloat (round_to_double (- (83 / 20)))),
               (''z_score'', PFloat (round_to_double (- (47 / 20))))]"
    let ?blk = "[(''hippocampus'', PDict ?e)]"
    have b: "map_of ?blk ''hippocampus'' = Some (PDict ?e)" by simp
    have ea: "map_of ?e ''annual_percent_change'' = Some (PFloat (round_to_double (- (83 / 20))))"
      by simp
    have ez: "map_of ?e ''z_score'' = Some (PFloat (round_to_double (- (47 / 20))))" by simp
    have chk: "check_roi (binary64 fl) (PDict ?blk) scenario_payload ''hippocampus''
        = Inl (ValueError (''Numeric mismatch for hippocampus z_score: reported ''
                 @ float_str fl (round_to_double (- (47 / 20))) @ '' vs payload ''
                 @ float_str fl (round_to_double (- (23 / 10)))))"
      unfolding check_roi_binary64 [OF scenario_metrics(1,2) b ea ez]
      using decimal_boundary_floats(1,2) by simp
    have nw: "numbers_within_allowed (binary64 fl) [round_to_double (21 / 20)] [round_to_double 1]
        = Some (round_to_double (21 / 20))"
      using decimal_boundary_floats(3)
      by (intro numbers_within_allowed_first) (simp add: NUMERIC_TOLERANCE_binary64)
    have a1: "\<bar>- (47 / 20) - (- (23 / 10))\<bar> = (5 / 100 :: rat)" by simp
    have a2: "\<bar>21 / 20 - 1\<bar> = (5 / 100 :: rat)" by simp
    from a1 decimal_boundary_floats(4) chk a2 nw
    have "\<bar>- (47 / 20) - (- (23 / 10))\<bar> = (5 / 100 :: rat)
      \<and> ieee_abs (ieee_sub (round_to_double (- (23 / 10))) (round_to_double (- (47 / 20))))
          = Finite (112589990684263 / 2251799813685248)
      \<and> check_roi (binary64 fl) (PDict ?blk) scenario_payload ''hippocampus''
          = Inl (ValueError (''Numeric mismatch for hippocampus z_score: reported ''
                   @ float_str fl (round_to_double (- (47 / 20))) @ '' vs payload ''
                   @ float_str fl (round_to_double (- (23 / 10)))))
      \<and> \<bar>21 / 20 - 1\<bar> = (5 / 100 :: rat)
      \<and> numbers_within_allowed (binary64 fl) [round_to_double (21 / 20)] [round_to_double 1]
          = Some (round_to_double (21 / 20))"
      by (intro conjI)
  }
  then show ?thesis by blast
qed

subsection \<open>C4: the forbidden-term scan\<close>

lemma alzheimer_scan:
  assumes "response = pre @ w @ post" "py_lower w = ''alzheimer''"
  shows "check_forbidden_terms response
           = Inl (ValueError ''Forbidden medical claim detected: alzheimer'')"
proof -
  have "py_lower response = py_lower pre @ ''alzheimer'' @ py_lower post"
    using assms by (simp add: py_lower_def)
  then have hit: "sublist ''alzheimer'' (py_lower response)"
    by (simp only: sublist_appendI)
  then show ?thesis
    by (simp add: check_forbidden_terms_def FORBIDDEN_TERMS_def Let_def)
qed

text \<open>
  C4. A response that contains \<^verbatim>\<open>Alzheimer\<close> in any letter case (a substring that
  lowercases to \<^verbatim>\<open>alzheimer\<close>) fails the validation of its attempt with the
  forbidden-term error, in text mode and in JSON mode, strict or not, whatever else the
  response contains: the scan comes before every other check.
\<close>

theorem forbidden_term_always_fails:
  fixes fl :: "'f float_ops"
  assumes "response = pre @ w @ post" "py_lower w = ''alzheimer''"
  shows "(check_forbidden_terms response :: 'f exception + unit)
           = Inl (ValueError ''Forbidden medical claim detected: alzheimer'')
       \<and> validate_response fl loads payload expect_json strict attempt response
           = Inl (ValueError ''Forbidden medical claim detected: alzheimer'')"
  using assms by (simp add: alzheimer_scan validate_response_def)

theorem forbidden_term_always_fails_witness:
  "validate_response stub_floats (\<lambda>s. None) (example_payload ()) True True 0
     ''Findings consistent with ALZHEIMER-type atrophy; -4.2 and -2.3 as given.''
   = Inl (ValueError ''Forbidden medical claim detected: alzheimer'')"
proof -
  have l: "py_lower ''ALZHEIMER'' = ''alzheimer''"
    by (simp add: py_lower_def lower_char_def ascii_upper_def ascii_lower_def)
  have s: "''Findings consistent with ALZHEIMER-type atrophy; -4.2 and -2.3 as given.''
      = ''Findings consistent with '' @ ''ALZHEIMER'' @ ''-type atrophy; -4.2 and -2.3 as given.''"
    by simp
  from forbidden_term_always_fails [OF s l, of stub_floats "\<lambda>s. None" "example_payload ()" True True 0]
  show ?thesis by (rule conjunct2)
qed
subsection \<open>C3, C5, C6: the retry loop\<close>

text \<open>The five ways in which one iteration of the retry loop can go.\<close>

lemma retry_loop_Cons_cases:
  fixes client :: "('f, 's) model"
  obtains
    (raises) e st' where "client st pkg = (Raises e, st')"
      "retry_loop fl loads fmsg client payload expect_json strict trace base_prompt images stage
         (attempt # rest) pkg st = (Inl e, st', [(pkg, Raises e)])"
  | (nontext) st' where "client st pkg = (NonText, st')"
      "retry_loop fl loads fmsg client payload expect_json strict trace base_prompt images stage
         (attempt # rest) pkg st
       = (Inl (ValueError ''Model response must be string.''), st', [(pkg, NonText)])"
  | (valid) response st' result where "client st pkg = (Text response, st')"
      "validate_response fl loads payload expect_json strict attempt response = Inr result"
      "retry_loop fl loads fmsg client payload expect_json strict trace base_prompt images stage
         (attempt # rest) pkg st = (Inr result, st', [(pkg, Text response)])"
  | (exhausted) response st' e where "client st pkg = (Text response, st')"
      "validate_response fl loads payload expect_json strict attempt response = Inl e"
      "attempt = MAX_RETRY"
      "retry_loop fl loads fmsg client payload expect_json strict trace base_prompt images stage
         (attempt # rest) pkg st
       = ((if expect_json
           then deterministic_fallback fl payload (trace_text fl trace ''stage1'')
                  (trace_text fl trace ''stage2'') (trace_text fl trace ''stage3'')
           else Inl e), st', [(pkg, Text response)])"
  | (retry) response st' e outcome st'' calls where "client st pkg = (Text response, st')"
      "validate_response fl loads payload expect_json strict attempt response = Inl e"
      "attempt \<noteq> MAX_RETRY"
      "retry_loop fl loads fmsg client payload expect_json strict trace base_prompt images stage
         rest \<lparr>pkg_text = repair_prompt fmsg base_prompt e, pkg_images = images,
               pkg_stage = stage\<rparr> st' = (outcome, st'', calls)"
      "retry_loop fl loads fmsg client payload expect_json strict trace base_prompt images stage
         (attempt # rest) pkg st = (outcome, st'', (pkg, Text response) # calls)"
proof (cases "client st pkg")
  case (Pair reply st')
  show thesis
  proof (cases reply)
    case (Raises e)
    with Pair show thesis by (intro raises [of e st']) simp_all
  next
    case NonText
    with Pair show thesis by (intro nontext [of st']) simp_all
  next
    case (Text response)
    show thesis
    proof (cases "validate_response fl loads payload expect_json strict attempt response")
      case (Inr result)
      with Pair Text show thesis by (intro valid [of response st' result]) simp_all
    next
      case (Inl e)
      show thesis
      proof (cases "attempt = MAX_RETRY")
        case True
        with Pair Text Inl show thesis by (intro exhausted [of response st' e]) simp_all
      next
        case False
        obtain outcome st'' calls where rec:
          "retry_loop fl loads fmsg client payload expect_json strict trace base_prompt images stage
             rest \<lparr>pkg_text = repair_prompt fmsg base_prompt e, pkg_images = images,
                   pkg_stage = stage\<rparr> st' = (outcome, st'', calls)"
          by (rule prod_cases3)
        with Pair Text Inl False show thesis
          by (intro retry [of response st' e outcome st'' calls]) simp_all
      qed
    qed
  qed
qed

lemma retry_loop_calls_bound:
  fixes client :: "('f, 's) model"
  shows "length (snd (snd (retry_loop fl loads fmsg client payload expect_json strict trace
      base_prompt images stage attempts pkg st))) \<le> length attempts"
proof (induction attempts arbitrary: pkg st)
  case Nil
  show ?case by simp
next
  case (Cons attempt rest)
  show ?case
  proof (cases rule: retry_loop_Cons_cases [of client st pkg fl loads fmsg payload expect_json strict
        trace base_prompt images stage attempt rest])
    case (retry response st' e outcome st'' calls)
    from Cons.IH [of "\<lparr>pkg_text = repair_prompt fmsg base_prompt e, pkg_images = images,
        pkg_stage = stage\<rparr>" st'] retry(4,5)
    show ?thesis by simp
  qed simp_all
qed

lemma retry_loop_calls_nonempty:
  fixes client :: "('f, 's) model"
  assumes "attempts \<noteq> []"
  shows "snd (snd (retry_loop fl loads fmsg client payload expect_json strict trace base_prompt
       images stage attempts pkg st)) \<noteq> []"
proof -
  from assms obtain attempt rest where a: "attempts = attempt # rest" by (cases attempts) auto
  show ?thesis
    unfolding a
    by (cases rule: retry_loop_Cons_cases [of client st pkg fl loads fmsg payload expect_json strict
        trace base_prompt images stage attempt rest]) simp_all
qed

text \<open>
  C3. Whatever the model, the stage, the payload and the flags, one run of the stage
  executor calls the model at least once and at most \<open>MAX_RETRY + 1 = 3\<close> times.
\<close>

theorem executor_bounded_retries:
  fixes client :: "('f, 's) model"
  shows "length (snd (snd (execute_with_retry_json fl loads fmsg client payload expect_json strict
      trace pkg st))) \<le> MAX_RETRY + 1
   \<and> MAX_RETRY + 1 = 3
   \<and> snd (snd (execute_with_retry_json fl loads fmsg client payload expect_json strict trace
         pkg st)) \<noteq> []"
proof -
  have "length (snd (snd (execute_with_retry_json fl loads fmsg client payload expect_json strict
      trace pkg st))) \<le> length [0 ..< MAX_RETRY + 1]"
    unfolding execute_with_retry_json_def by (rule retry_loop_calls_bound)
  moreover have "snd (snd (execute_with_retry_json fl loads fmsg client payload expect_json strict
      trace pkg st)) \<noteq> []"
    unfolding execute_with_retry_json_def
    by (rule retry_loop_calls_nonempty) (simp add: MAX_RETRY_def)
  ultimately show ?thesis by (simp add: MAX_RETRY_def)
qed

lemma retry_loop_first_call:
  fixes client :: "('f, 's) model"
  assumes "retry_loop fl loads fmsg client payload expect_json strict trace base_prompt images stage
      attempts pkg st = (outcome, st', calls)" "calls \<noteq> []"
  shows "fst (calls ! 0) = pkg"
proof (cases attempts)
  case Nil
  with assms show ?thesis by simp
next
  case (Cons attempt rest)
  show ?thesis
    using assms(1) unfolding Cons
    by (cases rule: retry_loop_Cons_cases [of client st pkg fl loads fmsg payload expect_json strict
        trace base_prompt images stage attempt rest]) auto
qed

lemma retry_loop_nontext:
  fixes client :: "('f, 's) model"
  assumes "retry_loop fl loads fmsg client payload expect_json strict trace base_prompt images stage
      attempts pkg st = (outcome, st', calls)" "(pk, NonText) \<in> set calls"
  shows "outcome = Inl (ValueError ''Model response must be string.'') \<and> last calls = (pk, NonText)"
  using assms
proof (induction attempts arbitrary: pkg st outcome st' calls)
  case Nil
  then show ?case by simp
next
  case (Cons attempt rest)
  show ?case
  proof (cases rule: retry_loop_Cons_cases [of client st pkg fl loads fmsg payload expect_json strict
        trace base_prompt images stage attempt rest])
    case (raises e st1)
    with Cons.prems show ?thesis by auto
  next
    case (nontext st1)
    with Cons.prems show ?thesis by auto
  next
    case (valid response st1 result)
    with Cons.prems show ?thesis by auto
  next
    case (exhausted response st1 e)
    with Cons.prems show ?thesis by auto
  next
    case (retry response st1 e outcome1 st2 calls1)
    with Cons.prems have eq: "outcome = outcome1" "calls = (pkg, Text response) # calls1" by auto
    with Cons.prems(2) have mem: "(pk, NonText) \<in> set calls1" by auto
    from Cons.IH [OF retry(4) mem] eq mem show ?thesis by auto
  qed
qed

lemma retry_loop_repair:
  fixes client :: "('f, 's) model"
  assumes "retry_loop fl loads fmsg client payload expect_json strict trace base_prompt images stage
      attempts pkg st = (outcome, st', calls)" "Suc i < length calls"
  shows "\<exists>response e. snd (calls ! i) = Text response
           \<and> validate_response fl loads payload expect_json strict (attempts ! i) response = Inl e
           \<and> attempts ! i \<noteq> MAX_RETRY
           \<and> fst (calls ! Suc i)
               = \<lparr>pkg_text = repair_prompt fmsg base_prompt e, pkg_images = images,
                  pkg_stage = stage\<rparr>"
  using assms
proof (induction attempts arbitrary: pkg st outcome st' calls i)
  case Nil
  then show ?case by simp
next
  case (Cons attempt rest)
  show ?case
  proof (cases rule: retry_loop_Cons_cases [of client st pkg fl loads fmsg payload expect_json strict
        trace base_prompt images stage attempt rest])
    case (raises e st1)
    with Cons.prems show ?thesis by auto
  next
    case (nontext st1)
    with Cons.prems show ?thesis by auto
  next
    case (valid response st1 result)
    with Cons.prems show ?thesis by auto
  next
    case (exhausted response st1 e)
    with Cons.prems show ?thesis by auto
  next
    case (retry response st1 e outcome1 st2 calls1)
    with Cons.prems have eq: "calls = (pkg, Text response) # calls1" by auto
    show ?thesis
    proof (cases i)
      case 0
      with Cons.prems(2) eq have ne: "calls1 \<noteq> []" by auto
      from retry_loop_first_call [OF retry(4) ne] retry(2,3) eq 0 show ?thesis by simp
    next
      case (Suc j)
      with Cons.prems(2) eq have "Suc j < length calls1" by simp
      from Cons.IH [OF retry(4) this] eq Suc show ?thesis by simp
    qed
  qed
qed

text \<open>
  C5. If the model returns a non-string at any attempt of any stage, the executor raises
  \<^verbatim>\<open>ValueError("Model response must be string.")\<close> to its caller: that call is the last
  call of the model (no repair prompt follows), and the outcome is the error, not a
  validated result and not the fallback report.
\<close>

theorem non_string_reply_is_fatal:
  fixes client :: "('f, 's) model"
  assumes "execute_with_retry_json fl loads fmsg client payload expect_json strict trace pkg st
             = (outcome, st', calls)"
    and "(pk, NonText) \<in> set calls"
  shows "outcome = Inl (ValueError ''Model response must be string.'') \<and> last calls = (pk, NonText)"
  using assms unfolding execute_with_retry_json_def by (rule retry_loop_nontext)

lemma retry_loop_retried:
  fixes client :: "('f, 's) model"
  assumes "retry_loop fl loads fmsg client payload expect_json strict trace base_prompt images stage
      attempts pkg st = (outcome, st', calls)"
    and "i < length calls" "snd (calls ! i) = Text response"
    and "validate_response fl loads payload expect_json strict (attempts ! i) response = Inl e"
    and "attempts ! i \<noteq> MAX_RETRY" "Suc i < length attempts"
  shows "Suc i < length calls
       \<and> fst (calls ! Suc i)
           = \<lparr>pkg_text = repair_prompt fmsg base_prompt e, pkg_images = images,
              pkg_stage = stage\<rparr>"
  using assms
proof (induction attempts arbitrary: pkg st outcome st' calls i)
  case Nil
  then show ?case by simp
next
  case (Cons attempt rest)
  show ?case
  proof (cases rule: retry_loop_Cons_cases [of client st pkg fl loads fmsg payload expect_json strict
        trace base_prompt images stage attempt rest])
    case (raises e1 st1)
    with Cons.prems show ?thesis by auto
  next
    case (nontext st1)
    with Cons.prems show ?thesis by auto
  next
    case (valid response1 st1 result)
    with Cons.prems show ?thesis by auto
  next
    case (exhausted response1 st1 e1)
    with Cons.prems show ?thesis by auto
  next
    case (retry response1 st1 e1 outcome1 st2 calls1)
    with Cons.prems have eq: "calls = (pkg, Text response1) # calls1" by auto
    show ?thesis
    proof (cases i)
      case 0
      with Cons.prems(3,4) eq retry(2) have same: "response1 = response" "e1 = e" by auto
      from 0 Cons.prems(6) have "rest \<noteq> []" by auto
      from retry_loop_calls_nonempty [OF this, of fl loads fmsg client payload expect_json strict
          trace base_prompt images stage
          "\<lparr>pkg_text = repair_prompt fmsg base_prompt e1, pkg_images = images, pkg_stage = stage\<rparr>"
          st1] retry(4)
      have ne: "calls1 \<noteq> []" by simp
      from retry_loop_first_call [OF retry(4) ne] same eq 0 ne show ?thesis by simp
    next
      case (Suc j)
      with Cons.prems eq have p: "j < length calls1" "snd (calls1 ! j) = Text response"
        "validate_response fl loads payload expect_json strict (rest ! j) response = Inl e"
        "rest ! j \<noteq> MAX_RETRY" "Suc j < length rest"
        by simp_all
      from Cons.IH [OF retry(4) p] eq Suc show ?thesis by simp
    qed
  qed
qed

text \<open>
  C6. Let the response of call \<open>n\<close> of a stage fail validation with the exception \<open>e\<close>
  at an attempt \<open>n < MAX_RETRY\<close>. Then the model is called again, and the package of that
  next call has the text of the original package followed by \<^verbatim>\<open>VALIDATION ERROR:\<close>, the
  failure reason \<^verbatim>\<open>str(e)\<close> and the three fixed requirements, with the images and the stage
  tag of the original package. For a \<^verbatim>\<open>ValueError\<close>, which is what every check of the
  validators raises, the reason is its message, letter for letter; for a \<^verbatim>\<open>KeyError\<close> it
  is the quoted key.
\<close>

theorem repair_prompt_contents:
  fixes client :: "('f, 's) model"
  assumes "execute_with_retry_json fl loads fmsg client payload expect_json strict trace pkg st
             = (outcome, st', calls)"
    and "n < length calls" "snd (calls ! n) = Text response"
    and "validate_response fl loads payload expect_json strict n response = Inl e"
    and "n < MAX_RETRY"
  shows "Suc n < length calls
       \<and> fst (calls ! Suc n)
           = \<lparr>pkg_text = pkg_text pkg
                @ [CHR 0x0A, CHR 0x0A] @ ''VALIDATION ERROR:'' @ [CHR 0x0A]
                @ (case e of
                     ValueError m \<Rightarrow> m
                   | KeyError k \<Rightarrow> [CHR 0x27] @ k @ [CHR 0x27]
                   | RuntimeError m \<Rightarrow> m
                   | Fault f \<Rightarrow> fmsg f
                   | ClientError m \<Rightarrow> m)
                @ [CHR 0x0A, CHR 0x0A]
                @ ''REQUIREMENTS FOR THE NEXT RESPONSE (NON-NEGOTIABLE):'' @ [CHR 0x0A]
                @ ''1) Return ONLY valid JSON.'' @ [CHR 0x0A]
                @ ''2) Numeric values must match the provided payload EXACTLY.'' @ [CHR 0x0A]
                @ ''3) Do NOT include forbidden medical claims.'' @ [CHR 0x0A],
              pkg_images = pkg_images pkg,
              pkg_stage = pkg_stage pkg\<rparr>
       \<and> sublist (exc_str fmsg e) (pkg_text (fst (calls ! Suc n)))
       \<and> fst (calls ! 0) = pkg"
proof -
  let ?attempts = "[0 ..< MAX_RETRY + 1]"
  from assms(1) have run: "retry_loop fl loads fmsg client payload expect_json strict trace
      (pkg_text pkg) (pkg_images pkg) (pkg_stage pkg) ?attempts pkg st = (outcome, st', calls)"
    by (simp add: execute_with_retry_json_def)
  from assms(5) have nth: "?attempts ! n = n" by (simp del: upt_Suc)
  from assms(5) have more: "Suc n < length ?attempts" by simp
  from assms(5) have notlast: "?attempts ! n \<noteq> MAX_RETRY" unfolding nth by simp
  from assms(4) have fails: "validate_response fl loads payload expect_json strict (?attempts ! n)
      response = Inl e" unfolding nth .
  from retry_loop_retried [OF run assms(2,3) fails notlast more]
  have next_call: "Suc n < length calls"
    and pkg': "fst (calls ! Suc n) = \<lparr>pkg_text = repair_prompt fmsg (pkg_text pkg) e,
      pkg_images = pkg_images pkg, pkg_stage = pkg_stage pkg\<rparr>"
    by simp_all
  have reason: "exc_str fmsg e
      = (case e of
           ValueError m \<Rightarrow> m
         | KeyError k \<Rightarrow> [CHR 0x27] @ k @ [CHR 0x27]
         | RuntimeError m \<Rightarrow> m
         | Fault f \<Rightarrow> fmsg f
         | ClientError m \<Rightarrow> m)"
    by (cases e) (simp_all add: exc_str_def)
  have sentence: "repair_prompt fmsg (pkg_text pkg) e
      = (pkg_text pkg @ [CHR 0x0A, CHR 0x0A] @ ''VALIDATION ERROR:'' @ [CHR 0x0A])
        @ exc_str fmsg e
        @ ([CHR 0x0A, CHR 0x0A] @ ''REQUIREMENTS FOR THE NEXT RESPONSE (NON-NEGOTIABLE):''
           @ [CHR 0x0A] @ ''1) Return ONLY valid JSON.'' @ [CHR 0x0A]
           @ ''2) Numeric values must match the provided payload EXACTLY.'' @ [CHR 0x0A]
           @ ''3) Do NOT include forbidden medical claims.'' @ [CHR 0x0A])"
    by (simp add: repair_prompt_def)
  have inside: "sublist (exc_str fmsg e) (pkg_text (fst (calls ! Suc n)))"
    unfolding pkg' prompt_package.select_convs sentence by (rule sublist_appendI)
  from assms(2) have ne: "calls \<noteq> []" by auto
  have first: "fst (calls ! 0) = pkg" using run ne by (rule retry_loop_first_call)
  have shape: "fst (calls ! Suc n)
           = \<lparr>pkg_text = pkg_text pkg
                @ [CHR 0x0A, CHR 0x0A] @ ''VALIDATION ERROR:'' @ [CHR 0x0A]
                @ (case e of
                     ValueError m \<Rightarrow> m
                   | KeyError k \<Rightarrow> [CHR 0x27] @ k @ [CHR 0x27]
                   | RuntimeError m \<Rightarrow> m
                   | Fault f \<Rightarrow> fmsg f
                   | ClientError m \<Rightarrow> m)
                @ [CHR 0x0A, CHR 0x0A]
                @ ''REQUIREMENTS FOR THE NEXT RESPONSE (NON-NEGOTIABLE):'' @ [CHR 0x0A]
                @ ''1) Return ONLY valid JSON.'' @ [CHR 0x0A]
                @ ''2) Numeric values must match the provided payload EXACTLY.'' @ [CHR 0x0A]
                @ ''3) Do NOT include forbidden medical claims.'' @ [CHR 0x0A],
              pkg_images = pkg_images pkg,
              pkg_stage = pkg_stage pkg\<rparr>"
    unfolding pkg' repair_prompt_def reason by simp
  from next_call shape inside first show ?thesis by (intro conjI)
qed

subsection \<open>The retry loop on two models\<close>

lemma dementia_scan:
  "\<not> sublist ''alzheimer'' (py_lower ''This indicates dementia.'')"
  "sublist ''dementia'' (py_lower ''This indicates dementia.'')"
  by code_simp+

lemma dementia_scan_result:
  "check_forbidden_terms ''This indicates dementia.''
     = Inl (ValueError ''Forbidden medical claim detected: dementia'')"
  by (simp add: check_forbidden_terms_def FORBIDDEN_TERMS_def Let_def dementia_scan)

lemma dementia_fails:
  "validate_response fl loads payload expect_json strict attempt ''This indicates dementia.''
     = Inl (ValueError ''Forbidden medical claim detected: dementia'')"
  by (simp add: validate_response_def dementia_scan_result)

lemma attempts_list: "[0 ..< MAX_RETRY + 1] = [0, 1, 2]"
  by (simp add: MAX_RETRY_def upt_rec)

lemma repaired_package_text:
  "\<lparr>pkg_text = repair_prompt fmsg ''Summarise the quantitative data.''
                 (ValueError ''Forbidden medical claim detected: dementia''),
    pkg_images = [], pkg_stage = ''stage1''\<rparr> = repaired_package"
  by (simp add: repair_prompt_def exc_str_def repaired_package_def)

lemma forbidden_model_run:
  "execute_with_retry_json fl loads fmsg forbidden_model payload False False None example_package 0
   = (Inl (ValueError ''Forbidden medical claim detected: dementia''), 3,
      [(example_package, Text ''This indicates dementia.''),
       (repaired_package, Text ''This indicates dementia.''),
       (repaired_package, Text ''This indicates dementia.'')])"
  unfolding execute_with_retry_json_def attempts_list
  by (simp add: forbidden_model_def dementia_fails MAX_RETRY_def example_package_def
      repaired_package_text)

lemma non_string_model_run:
  "execute_with_retry_json fl loads fmsg non_string_model payload False False None example_package 0
   = (Inl (ValueError ''Model response must be string.''), 2,
      [(example_package, Text ''This indicates dementia.''), (repaired_package, NonText)])"
  unfolding execute_with_retry_json_def attempts_list
  by (simp add: non_string_model_def dementia_fails MAX_RETRY_def example_package_def
      repaired_package_text)

theorem executor_bounded_retries_witness:
  "length (snd (snd (execute_with_retry_json stub_floats (\<lambda>s. None) (\<lambda>f. []) forbidden_model
      PNone False False None example_package 0))) = 3"
  using executor_bounded_retries [of stub_floats "\<lambda>s. None" "\<lambda>f. []" forbidden_model PNone False
      False None example_package 0] forbidden_model_run [of stub_floats "\<lambda>s. None" "\<lambda>f. []" PNone]
  by simp

theorem non_string_reply_is_fatal_witness:
  "execute_with_retry_json stub_floats (\<lambda>s. None) (\<lambda>f. []) non_string_model PNone False False None
     example_package 0
   = (Inl (ValueError ''Model response must be string.''), 2,
      [(example_package, Text ''This indicates dementia.''), (repaired_package, NonText)])
   \<and> last [(example_package, Text ''This indicates dementia.''),
            (repaired_package, NonText :: unit reply)]
       = (repaired_package, NonText)"
proof -
  have m: "(repaired_package, NonText)
      \<in> set [(example_package, Text ''This indicates dementia.''),
              (repaired_package, NonText :: unit reply)]"
    by simp
  note run = non_string_model_run [of stub_floats "\<lambda>s. None" "\<lambda>f. []" PNone]
  from non_string_reply_is_fatal [OF run m] run
  show ?thesis by simp
qed

theorem repair_prompt_contents_witness:
  "execute_with_retry_json stub_floats (\<lambda>s. None) (\<lambda>f. []) forbidden_model PNone False False None
     example_package 0
   = (Inl (ValueError ''Forbidden medical claim detected: dementia''), 3,
      [(example_package, Text ''This indicates dementia.''),
       (repaired_package, Text ''This indicates dementia.''),
       (repaired_package, Text ''This indicates dementia.'')])
   \<and> validate_response stub_floats (\<lambda>s. None) PNone False False 0 ''This indicates dementia.''
       = Inl (ValueError ''Forbidden medical claim detected: dementia'')
   \<and> repaired_package
       = \<lparr>pkg_text =
            ''Summarise the quantitative data.''
            @ [CHR 0x0A, CHR 0x0A] @ ''VALIDATION ERROR:'' @ [CHR 0x0A]
            @ ''Forbidden medical claim detected: dementia''
            @ [CHR 0x0A, CHR 0x0A] @ ''REQUIREMENTS FOR THE NEXT RESPONSE (NON-NEGOTIABLE):''
            @ [CHR 0x0A]
            @ ''1) Return ONLY valid JSON.'' @ [CHR 0x0A]
            @ ''2) Numeric values must match the provided payload EXACTLY.'' @ [CHR 0x0A]
            @ ''3) Do NOT include forbidden medical claims.'' @ [CHR 0x0A],
          pkg_images = [], pkg_stage = ''stage1''\<rparr>
   \<and> sublist ''Forbidden medical claim detected: dementia'' (pkg_text repaired_package)"
proof -
  let ?calls = "[(example_package, Text ''This indicates dementia.''),
       (repaired_package, Text ''This indicates dementia.''),
       (repaired_package, Text ''This indicates dementia.'' :: unit reply)]"
  note run = forbidden_model_run [of stub_floats "\<lambda>s. None" "\<lambda>f. []" PNone]
  note fails = dementia_fails [of stub_floats "\<lambda>s. None" PNone False False 0]
  have len: "0 < length ?calls" by simp
  have reply: "snd (?calls ! 0) = Text ''This indicates dementia.''" by simp
  have early: "0 < MAX_RETRY" by (simp add: MAX_RETRY_def)
  from repair_prompt_contents [OF run len reply fails early]
  have "fst (?calls ! Suc 0)
      = \<lparr>pkg_text = pkg_text example_package
            @ [CHR 0x0A, CHR 0x0A] @ ''VALIDATION ERROR:'' @ [CHR 0x0A]
            @ ''Forbidden medical claim detected: dementia''
            @ [CHR 0x0A, CHR 0x0A]
            @ ''REQUIREMENTS FOR THE NEXT RESPONSE (NON-NEGOTIABLE):'' @ [CHR 0x0A]
            @ ''1) Return ONLY valid JSON.'' @ [CHR 0x0A]
            @ ''2) Numeric values must match the provided payload EXACTLY.'' @ [CHR 0x0A]
            @ ''3) Do NOT include forbidden medical claims.'' @ [CHR 0x0A],
          pkg_images = pkg_images example_package,
          pkg_stage = pkg_stage example_package\<rparr>"
    and "sublist (exc_str (\<lambda>f. []) (ValueError ''Forbidden medical claim detected: dementia'' :: unit exception))
           (pkg_text (fst (?calls ! Suc 0)))"
    by simp_all
  then have "repaired_package
      = \<lparr>pkg_text =
            ''Summarise the quantitative data.''
            @ [CHR 0x0A, CHR 0x0A] @ ''VALIDATION ERROR:'' @ [CHR 0x0A]
            @ ''Forbidden medical claim detected: dementia''
            @ [CHR 0x0A, CHR 0x0A] @ ''REQUIREMENTS FOR THE NEXT RESPONSE (NON-NEGOTIABLE):''
            @ [CHR 0x0A]
            @ ''1) Return ONLY valid JSON.'' @ [CHR 0x0A]
            @ ''2) Numeric values must match the provided payload EXACTLY.'' @ [CHR 0x0A]
            @ ''3) Do NOT include forbidden medical claims.'' @ [CHR 0x0A],
          pkg_images = [], pkg_stage = ''stage1''\<rparr>"
    and "sublist ''Forbidden medical claim detected: dementia'' (pkg_text repaired_package)"
    by (simp_all add: example_package_def exc_str_def)
  with run fails show ?thesis by (intro conjI)
qed

subsection \<open>C7: the JSON substring\<close>

lemma find_char_append:
  assumes "c \<notin> set pre"
  shows "find_char c (pre @ c # rest) = Some (length pre)"
proof -
  have "takeWhile (\<lambda>x. x \<noteq> c) (pre @ c # rest) = pre"
    using assms by (induction pre) auto
  then show ?thesis by (simp add: find_char_def)
qed

lemma rfind_char_append:
  assumes "c \<notin> set post"
  shows "rfind_char c (pre @ c # post) = Some (length pre)"
proof -
  have "\<And>x. x \<in> set (rev post) \<Longrightarrow> x \<noteq> c" using assms by auto
  then have "takeWhile (\<lambda>x. x \<noteq> c) (rev post @ c # rev pre)
      = rev post @ takeWhile (\<lambda>x. x \<noteq> c) (c # rev pre)"
    by (rule takeWhile_append2)
  then have "takeWhile (\<lambda>x. x \<noteq> c) (rev (pre @ c # post)) = rev post" by simp
  then show ?thesis by (simp add: rfind_char_def del: rev_append rev.simps)
qed

lemma find_char_None: "c \<notin> set s \<Longrightarrow> find_char c s = None"
  by (simp add: find_char_def)

lemma rfind_char_None: "c \<notin> set s \<Longrightarrow> rfind_char c s = None"
  by (simp add: rfind_char_def)

lemma find_char_bound: "find_char c s = Some i \<Longrightarrow> i < length s"
proof -
  assume a: "find_char c s = Some i"
  then have m: "c \<in> set s" by (auto simp: find_char_def split: if_splits)
  then have "length (takeWhile (\<lambda>x. x \<noteq> c) s) < length s"
    by (induction s) auto
  with a m show ?thesis by (simp add: find_char_def)
qed

lemma extract_json_substring_span:
  assumes "CHR ''{'' \<notin> set pre" "CHR ''}'' \<notin> set post"
  shows "extract_json_substring (pre @ CHR ''{'' # mid @ CHR ''}'' # post)
           = (if braces_balanced 0 (CHR ''{'' # mid @ [CHR ''}''])
              then Some (CHR ''{'' # mid @ [CHR ''}'']) else None)"
proof -
  let ?t = "pre @ CHR ''{'' # mid @ CHR ''}'' # post"
  have f: "find_char CHR ''{'' ?t = Some (length pre)"
    using assms(1) by (rule find_char_append)
  have "rfind_char CHR ''}'' ((pre @ CHR ''{'' # mid) @ CHR ''}'' # post)
      = Some (length (pre @ CHR ''{'' # mid))"
    using assms(2) by (rule rfind_char_append)
  then have r: "rfind_char CHR ''}'' ?t = Some (length pre + 1 + length mid)" by simp
  have c: "take (length pre + 1 + length mid + 1 - length pre) (drop (length pre) ?t)
      = CHR ''{'' # mid @ [CHR ''}'']"
    by simp
  show ?thesis
    unfolding extract_json_substring_def f r by (simp only: c Let_def prod.case option.case) simp
qed

lemma extract_json_substring_reversed:
  assumes "CHR ''{'' \<notin> set a" "CHR ''}'' \<notin> set b"
  shows "extract_json_substring (a @ CHR ''}'' # b) = None"
proof (cases "CHR ''{'' \<in> set b")
  case False
  with assms(1) have "CHR ''{'' \<notin> set (a @ CHR ''}'' # b)" by simp
  then show ?thesis by (simp add: extract_json_substring_def find_char_None)
next
  case True
  then obtain b1 b2 where b: "b = b1 @ CHR ''{'' # b2" "CHR ''{'' \<notin> set b1"
    by (meson split_list_first)
  have "find_char CHR ''{'' ((a @ CHR ''}'' # b1) @ CHR ''{'' # b2) = Some (length (a @ CHR ''}'' # b1))"
    using assms(1) b(2) by (intro find_char_append) simp
  then have f: "find_char CHR ''{'' (a @ CHR ''}'' # b) = Some (length a + 1 + length b1)"
    using b(1) by simp
  have r: "rfind_char CHR ''}'' (a @ CHR ''}'' # b) = Some (length a)"
    using assms(2) by (rule rfind_char_append)
  show ?thesis by (simp add: extract_json_substring_def f r)
qed

lemma extract_json_substring_nonempty:
  assumes "extract_json_substring text = Some candidate"
  shows "candidate \<noteq> []"
proof -
  from assms obtain start end' where f: "find_char CHR ''{'' text = Some start"
    and r: "rfind_char CHR ''}'' text = Some end'" and lt: "start < end'"
    and c: "candidate = take (end' + 1 - start) (drop start text)"
    by (auto simp: extract_json_substring_def Let_def split: option.splits if_splits)
  from f have "start < length text" by (rule find_char_bound)
  with lt c show ?thesis by simp
qed

text \<open>
  C7, as amended. In JSON mode, when \<^verbatim>\<open>json.loads\<close> rejects the response, the executor
  takes the substring from the first opening brace to the last closing brace of the
  response, keeps it only if its braces are balanced (the depth never goes below zero and
  is zero at the end), and parses that; when there is no such substring, when its braces
  are not balanced, or when the second parse fails or gives \<^verbatim>\<open>null\<close>, the attempt fails
  with \<^verbatim>\<open>Model output is not valid JSON.\<close>; otherwise the parsed value goes to the
  validator of the final report.
\<close>

theorem json_substring_extraction:
  fixes fl :: "'f float_ops"
  assumes "(check_forbidden_terms response :: 'f exception + unit) = Inr ()"
    and "loads response = None"
  shows "validate_response fl loads payload True strict attempt response
           = (case extract_json_substring response of
                None \<Rightarrow> Inl (ValueError ''Model output is not valid JSON.'')
              | Some candidate \<Rightarrow>
                  (case loads candidate of
                     None \<Rightarrow> Inl (ValueError ''Model output is not valid JSON.'')
                   | Some parsed \<Rightarrow>
                       if parsed = PNone then Inl (ValueError ''Model output is not valid JSON.'')
                       else
                         bindE (validate_final_json fl parsed payload) (\<lambda>u.
                         bindE (py_setitem parsed ''repair_attempted'' (PBool (0 < attempt)))
                           (\<lambda>parsed1. py_setitem parsed1 ''fallback_used'' (PBool False)))))
       \<and> (response = pre @ CHR ''{'' # mid @ CHR ''}'' # post
            \<and> CHR ''{'' \<notin> set pre \<and> CHR ''}'' \<notin> set post
          \<longrightarrow> extract_json_substring response
                = (if braces_balanced 0 (CHR ''{'' # mid @ [CHR ''}''])
                   then Some (CHR ''{'' # mid @ [CHR ''}'']) else None))
       \<and> (response = pre @ CHR ''}'' # post \<and> CHR ''{'' \<notin> set pre \<and> CHR ''}'' \<notin> set post
          \<longrightarrow> extract_json_substring response = None)
       \<and> (CHR ''}'' \<notin> set response \<longrightarrow> extract_json_substring response = None)"
proof -
  have 1: "validate_response fl loads payload True strict attempt response
           = (case extract_json_substring response of
                None \<Rightarrow> Inl (ValueError ''Model output is not valid JSON.'')
              | Some candidate \<Rightarrow>
                  (case loads candidate of
                     None \<Rightarrow> Inl (ValueError ''Model output is not valid JSON.'')
                   | Some parsed \<Rightarrow>
                       if parsed = PNone then Inl (ValueError ''Model output is not valid JSON.'')
                       else
                         bindE (validate_final_json fl parsed payload) (\<lambda>u.
                         bindE (py_setitem parsed ''repair_attempted'' (PBool (0 < attempt)))
                           (\<lambda>parsed1. py_setitem parsed1 ''fallback_used'' (PBool False)))))"
  proof (cases "extract_json_substring response")
    case None
    with assms show ?thesis by (simp add: validate_response_def parse_json_def)
  next
    case (Some candidate)
    then have "candidate \<noteq> []" by (rule extract_json_substring_nonempty)
    with Some assms show ?thesis by (simp add: validate_response_def parse_json_def)
  qed
  have 2: "response = pre @ CHR ''{'' # mid @ CHR ''}'' # post
            \<and> CHR ''{'' \<notin> set pre \<and> CHR ''}'' \<notin> set post
          \<longrightarrow> extract_json_substring response
                = (if braces_balanced 0 (CHR ''{'' # mid @ [CHR ''}''])
                   then Some (CHR ''{'' # mid @ [CHR ''}'']) else None)"
  proof
    assume h: "response = pre @ CHR ''{'' # mid @ CHR ''}'' # post
        \<and> CHR ''{'' \<notin> set pre \<and> CHR ''}'' \<notin> set post"
    then have "CHR ''{'' \<notin> set pre" "CHR ''}'' \<notin> set post" by simp_all
    from extract_json_substring_span [OF this, of mid] h
    show "extract_json_substring response
        = (if braces_balanced 0 (CHR ''{'' # mid @ [CHR ''}''])
           then Some (CHR ''{'' # mid @ [CHR ''}'']) else None)" by simp
  qed
  have 3: "response = pre @ CHR ''}'' # post \<and> CHR ''{'' \<notin> set pre \<and> CHR ''}'' \<notin> set post
          \<longrightarrow> extract_json_substring response = None"
  proof
    assume h: "response = pre @ CHR ''}'' # post \<and> CHR ''{'' \<notin> set pre \<and> CHR ''}'' \<notin> set post"
    then have "CHR ''{'' \<notin> set pre" "CHR ''}'' \<notin> set post" by simp_all
    from extract_json_substring_reversed [OF this] h
    show "extract_json_substring response = None" by simp
  qed
  have 4: "CHR ''}'' \<notin> set response \<longrightarrow> extract_json_substring response = None"
    by (auto simp: extract_json_substring_def rfind_char_None split: option.splits)
  from 1 2 3 4 show ?thesis by blast
qed

lemma report_scan: "list_all (\<lambda>term. \<not> sublist term (py_lower ''Report: {} end'')) FORBIDDEN_TERMS"
  by code_simp

lemma report_clean: "check_forbidden_terms ''Report: {} end'' = Inr ()"
  using report_scan by (simp add: check_forbidden_terms_def FORBIDDEN_TERMS_def Let_def)

lemma report_not_json: "loads_empty_object ''Report: {} end'' = None"
  by (simp add: loads_empty_object_def)

lemma report_object: "extract_json_substring ''Report: {} end'' = Some ''{}''"
  by (simp add: extract_json_substring_def find_char_def rfind_char_def)

lemma empty_object_parsed: "loads_empty_object ''{}'' = Some (PDict [])"
  by (simp add: loads_empty_object_def)

lemma empty_object_rejected:
  "validate_final_json fl (PDict []) PNone
     = Inl (ValueError ''Missing top-level key in final JSON: roi_interpretations'')"
  by (simp add: validate_final_json_def py_contains_def)

theorem json_substring_extraction_witness:
  "(check_forbidden_terms ''Report: {} end'' :: unit exception + unit) = Inr ()
   \<and> (loads_empty_object ''Report: {} end'' :: unit py option) = None
   \<and> extract_json_substring ''Report: {} end'' = Some ''{}''
   \<and> validate_response stub_floats loads_empty_object PNone True True 0 ''Report: {} end''
       = Inl (ValueError ''Missing top-level key in final JSON: roi_interpretations'')"
proof -
  note t = json_substring_extraction [where fl = stub_floats and loads = loads_empty_object
      and response = "''Report: {} end''" and payload = PNone and strict = True and attempt = 0
      and pre = "[]" and mid = "[]" and post = "[]", OF report_clean report_not_json]
  from t have "validate_response stub_floats loads_empty_object PNone True True 0 ''Report: {} end''
      = (case extract_json_substring ''Report: {} end'' of
           None \<Rightarrow> Inl (ValueError ''Model output is not valid JSON.'')
         | Some candidate \<Rightarrow>
             (case loads_empty_object candidate of
                None \<Rightarrow> Inl (ValueError ''Model output is not valid JSON.'')
              | Some parsed \<Rightarrow>
                  if parsed = PNone then Inl (ValueError ''Model output is not valid JSON.'')
                  else
                    bindE (validate_final_json stub_floats parsed PNone) (\<lambda>u.
                    bindE (py_setitem parsed ''repair_attempted'' (PBool (0 < (0 :: nat))))
                      (\<lambda>parsed1. py_setitem parsed1 ''fallback_used'' (PBool False)))))"
    by (rule conjunct1)
  then have "validate_response stub_floats loads_empty_object PNone True True 0 ''Report: {} end''
      = Inl (ValueError ''Missing top-level key in final JSON: roi_interpretations'')"
    by (simp only: report_object empty_object_parsed empty_object_rejected option.case
        py.distinct if_False bindE_simps)
  with report_clean report_not_json report_object show ?thesis by (intro conjI)
qed

lemma two_objects:
  "extract_json_substring ''{1} and {2}'' = Some ''{1} and {2}''"
  "spec_first_balanced_substring ''{1} and {2}'' = Some ''{1}''"
  by (simp_all add: extract_json_substring_def find_char_def rfind_char_def
      spec_first_balanced_substring_def)

lemma stray_brace:
  "extract_json_substring ''{1} }'' = None"
  "spec_first_balanced_substring ''{1} }'' = Some ''{1}''"
  by (simp_all add: extract_json_substring_def find_char_def rfind_char_def
      spec_first_balanced_substring_def)

text \<open>
  C7 as stated fails: the substring taken runs to the last closing brace, so with two
  objects in the response it is not the first balanced one, and a stray closing brace
  after a balanced object makes the extraction fail.
\<close>

theorem first_balanced_counterexample:
  "extract_json_substring ''{1} and {2}'' = Some ''{1} and {2}''
   \<and> spec_first_balanced_substring ''{1} and {2}'' = Some ''{1}''
   \<and> extract_json_substring ''{1} }'' = None
   \<and> spec_first_balanced_substring ''{1} }'' = Some ''{1}''"
  using two_objects stray_brace by (intro conjI)
subsection \<open>C8: the mismatch downgrade\<close>

text \<open>What a passed classification check says about the two classes.\<close>

lemma check_classification_class:
  assumes "check_classification fl cls payload = Inr ()"
  shows "\<exists>g ec c l. py_getitem payload ''progression'' = Inr g \<and> py_getitem g ''class'' = Inr ec
           \<and> py_getitem cls ''class'' = Inr c \<and> py_lower_of c = Inr l \<and> py_lower_of ec = Inr l"
  using assms unfolding check_classification_def
  by (auto simp: bindE_Inr_iff split: if_splits)

lemma consistency_check_validated:
  assumes "validate_response fl loads payload True strict attempt response = Inr final_json"
  shows "\<exists>kvs. final_json = PDict kvs \<and> consistency_check fl payload final_json = Inr ()"
proof -
  from assms obtain parsed p1 where v: "validate_final_json fl parsed payload = Inr ()"
    and s1: "py_setitem parsed ''repair_attempted'' (PBool (0 < attempt)) = Inr p1"
    and s2: "py_setitem p1 ''fallback_used'' (PBool False) = Inr final_json"
    unfolding validate_response_def
    by (auto simp: bindE_Inr_iff split: option.splits if_splits)
  from py_setitem_Inr [OF s1] obtain kvs where k: "parsed = PDict kvs"
    "p1 = PDict (AList.update ''repair_attempted'' (PBool (0 < attempt)) kvs)" by blast
  let ?k1 = "AList.update ''repair_attempted'' (PBool (0 < attempt)) kvs"
  from py_setitem_Inr [OF s2] k have f: "final_json = PDict (AList.update ''fallback_used'' (PBool False) ?k1)"
    by auto
  from v k obtain cls where cls: "py_getitem (PDict kvs) ''classification'' = Inr cls"
    and cc: "check_classification fl cls payload = Inr ()"
    unfolding validate_final_json_def by (auto simp: bindE_Inr_iff)
  from check_classification_class [OF cc] obtain g ec c l where
    g: "py_getitem payload ''progression'' = Inr g" "py_getitem g ''class'' = Inr ec"
      "py_getitem cls ''class'' = Inr c" "py_lower_of c = Inr l" "py_lower_of ec = Inr l"
    by blast
  have fu: "py_get final_json ''fallback_used'' (PBool False) = Inr (PBool False)"
    unfolding f by (rule py_get_update_same)
  have fc: "py_getitem final_json ''classification'' = Inr cls"
    unfolding f by (simp add: py_getitem_update_other cls)
  have "consistency_check fl payload final_json = Inr ()"
    unfolding consistency_check_def by (simp add: fu fc g py_truthy_def)
  with f show ?thesis by blast
qed

lemma consistency_check_fallback:
  assumes "deterministic_fallback fl payload a b c = Inr final_json"
  shows "\<exists>kvs. final_json = PDict kvs \<and> consistency_check fl payload final_json = Inr ()"
proof -
  from assms obtain kvs where f: "final_json = PDict kvs"
    and fu: "map_of kvs ''fallback_used'' = Some (PBool True)"
    unfolding deterministic_fallback_def by (auto simp: bindE_Inr_iff)
  have "consistency_check fl payload final_json = Inr ()"
    unfolding consistency_check_def f by (simp add: py_get_dict [OF fu] py_truthy_def)
  with f show ?thesis by blast
qed

lemma retry_loop_final_json:
  fixes client :: "('f, 's) model"
  assumes "retry_loop fl loads fmsg client payload True strict trace base_prompt images stage
      attempts pkg st = (Inr final_json, st', calls)"
  shows "\<exists>kvs. final_json = PDict kvs \<and> consistency_check fl payload final_json = Inr ()"
  using assms
proof (induction attempts arbitrary: pkg st st' calls)
  case Nil
  then show ?case by simp
next
  case (Cons attempt rest)
  show ?case
  proof (cases rule: retry_loop_Cons_cases [of client st pkg fl loads fmsg payload True strict
        trace base_prompt images stage attempt rest])
    case (raises e st1)
    with Cons.prems show ?thesis by simp
  next
    case (nontext st1)
    with Cons.prems show ?thesis by simp
  next
    case (valid response st1 result)
    with Cons.prems have "result = final_json" by simp
    with valid(2) show ?thesis by (auto dest: consistency_check_validated)
  next
    case (exhausted response st1 e)
    with Cons.prems have "deterministic_fallback fl payload (trace_text fl trace ''stage1'')
        (trace_text fl trace ''stage2'') (trace_text fl trace ''stage3'') = Inr final_json" by simp
    then show ?thesis by (rule consistency_check_fallback)
  next
    case (retry response st1 e outcome1 st2 calls1)
    with Cons.prems have "retry_loop fl loads fmsg client payload True strict trace base_prompt
        images stage rest \<lparr>pkg_text = repair_prompt fmsg base_prompt e, pkg_images = images,
        pkg_stage = stage\<rparr> st1 = (Inr final_json, st2, calls1)" by simp
    then show ?thesis by (rule Cons.IH)
  qed
qed

text \<open>
  C8. Let the four stages of a run complete: the three text stages with their texts and
  stage 4 with a final report (validated or from the fallback) whose \<^verbatim>\<open>warning_flag\<close> is
  absent or null. Let the text of stage 2 contain a term of the mismatch list in any
  letter case. Then \<^verbatim>\<open>run_multistage_reasoning\<close> returns without an exception, the report
  under \<^verbatim>\<open>final_output\<close> is the final report of stage 4 with \<^verbatim>\<open>warning_flag\<close> set to
  \<^verbatim>\<open>Visual-Numeric Mismatch\<close> and \<^verbatim>\<open>confidence_level\<close> overwritten with
  \<^verbatim>\<open>Low (Visual Mismatch)\<close>, whatever confidence it carried, and the two top-level
  entries of the result carry the same values.
\<close>

theorem mismatch_forces_warning:
  fixes client :: "('f, 's) model"
  assumes "validate_payload payload = Inr ()"
    and "build_numeric_prompt builder payload = Inr pkg1"
    and "execute_with_retry_json fl loads fmsg client payload False False None pkg1 st0
           = (Inr stage1, st1, calls1)"
    and "build_multimodal_prompt builder payload stage1 = Inr pkg2"
    and "execute_with_retry_json fl loads fmsg client payload False False None pkg2 st1
           = (Inr (PStr (pre @ w @ post)), st2, calls2)"
    and "build_verification_prompt builder payload stage1 (PStr (pre @ w @ post)) = Inr pkg3"
    and "execute_with_retry_json fl loads fmsg client payload False False None pkg3 st2
           = (Inr stage3, st3, calls3)"
    and "build_simplification_prompt builder payload stage3 = Inr pkg4"
    and "execute_with_retry_json fl loads fmsg client payload True True
           (Some [(''stage1'', stage1), (''stage2'', PStr (pre @ w @ post)), (''stage3'', stage3)])
           pkg4 st3
           = (Inr final_json, st4, calls4)"
    and "py_lower w \<in> set MISMATCH_TERMS"
    and "py_get final_json ''warning_flag'' PNone = Inr PNone"
  shows "\<exists>kvs out.
           final_json = PDict kvs
         \<and> run_multistage_reasoning fl loads fmsg builder client payload st0
             = (Inr out, st4, calls1 @ calls2 @ calls3 @ calls4)
         \<and> py_getitem out ''final_output''
             = Inr (PDict (AList.update ''confidence_level'' (PStr ''Low (Visual Mismatch)'')
                      (AList.update ''warning_flag'' (PStr ''Visual-Numeric Mismatch'') kvs)))
         \<and> py_path out [''final_output'', ''warning_flag'']
             = Inr (PStr ''Visual-Numeric Mismatch'')
         \<and> py_path out [''final_output'', ''confidence_level'']
             = Inr (PStr ''Low (Visual Mismatch)'')
         \<and> py_getitem out ''warning_flag'' = Inr (PStr ''Visual-Numeric Mismatch'')
         \<and> py_getitem out ''confidence_level'' = Inr (PStr ''Low (Visual Mismatch)'')
         \<and> py_path out [''thinking_trace'', ''stage2_multimodal''] = Inr (PStr (pre @ w @ post))"
proof -
  let ?stage2 = "pre @ w @ post"
  from assms(9) obtain kvs where k: "final_json = PDict kvs"
    and cc: "consistency_check fl payload final_json = Inr ()"
    unfolding execute_with_retry_json_def by (blast dest: retry_loop_final_json)
  let ?k1 = "AList.update ''warning_flag'' (PStr ''Visual-Numeric Mismatch'') kvs"
  let ?k2 = "AList.update ''confidence_level'' (PStr ''Low (Visual Mismatch)'') ?k1"
  have "py_lower ?stage2 = py_lower pre @ py_lower w @ py_lower post"
    by (simp add: py_lower_def)
  then have "sublist (py_lower w) (py_lower ?stage2)" by (simp only: sublist_appendI)
  with assms(10) have hit: "list_ex (\<lambda>term. sublist term (py_lower ?stage2)) MISMATCH_TERMS"
    unfolding list_ex_iff by blast
  have md: "mismatch_downgrade (PStr ?stage2) final_json = Inr (PDict ?k2)"
    unfolding mismatch_downgrade_def
    using assms(11) hit by (simp add: py_lower_of_def k py_setitem_def)
  have c: "py_get (PDict ?k2) ''confidence_level'' PNone = Inr (PStr ''Low (Visual Mismatch)'')"
    by (rule py_get_update_same)
  have w: "py_get (PDict ?k2) ''warning_flag'' PNone = Inr (PStr ''Visual-Numeric Mismatch'')"
    by (simp add: py_get_update_other py_get_update_same)
  let ?out = "PDict
       [(''thinking_trace'',
           PDict [(''stage1_quantitative'', stage1),
                  (''stage2_multimodal'', PStr ?stage2),
                  (''stage3_verification'', stage3)]),
        (''final_output'', PDict ?k2),
        (''confidence_level'', PStr ''Low (Visual Mismatch)''),
        (''warning_flag'', PStr ''Visual-Numeric Mismatch'')]"
  have fr: "finish_run fl payload stage1 (PStr ?stage2) stage3 final_json = Inr ?out"
    unfolding finish_run_def by (simp only: cc md c w bindE_simps)
  have run: "run_multistage_reasoning fl loads fmsg builder client payload st0
      = (Inr ?out, st4, calls1 @ calls2 @ calls3 @ calls4)"
    unfolding run_multistage_reasoning_def
    by (simp only: assms(1-9) fr sum.case prod.case)
  have fo: "py_getitem ?out ''final_output'' = Inr (PDict ?k2)"
    and wf: "py_getitem ?out ''warning_flag'' = Inr (PStr ''Visual-Numeric Mismatch'')"
    and cl: "py_getitem ?out ''confidence_level'' = Inr (PStr ''Low (Visual Mismatch)'')"
    and tt: "py_path ?out [''thinking_trace'', ''stage2_multimodal''] = Inr (PStr ?stage2)"
    by (simp_all add: py_getitem_def)
  have fw: "py_path ?out [''final_output'', ''warning_flag'']
      = Inr (PStr ''Visual-Numeric Mismatch'')"
    by (simp add: fo py_getitem_update_other py_getitem_update_same)
  have fc: "py_path ?out [''final_output'', ''confidence_level'']
      = Inr (PStr ''Low (Visual Mismatch)'')"
    by (simp add: fo py_getitem_update_same)
  from k run fo fw fc wf cl tt show ?thesis by blast
qed

subsection \<open>A run whose second stage reports a mismatch\<close>

lemma mismatch_model_scans:
  "list_all (\<lambda>term. \<not> sublist term (py_lower ''Marked hippocampal loss.'')) FORBIDDEN_TERMS"
  "list_all (\<lambda>term. \<not> sublist term (py_lower ''The overlay Does Not Align with the numbers.''))
     FORBIDDEN_TERMS"
  "list_all (\<lambda>term. \<not> sublist term (py_lower ''Verified.'')) FORBIDDEN_TERMS"
  "list_all (\<lambda>term. \<not> sublist term (py_lower ''No report.'')) FORBIDDEN_TERMS"
  by code_simp+

lemma mismatch_model_clean:
  "check_forbidden_terms ''Marked hippocampal loss.'' = Inr ()"
  "check_forbidden_terms ''The overlay Does Not Align with the numbers.'' = Inr ()"
  "check_forbidden_terms ''Verified.'' = Inr ()"
  "check_forbidden_terms ''No report.'' = Inr ()"
  using mismatch_model_scans
  by (simp_all add: check_forbidden_terms_def FORBIDDEN_TERMS_def Let_def)

lemma mismatch_model_text_stages:
  "execute_with_retry_json fl loads fmsg mismatch_model payload False False None example_package 0
     = (Inr (PStr ''Marked hippocampal loss.''), 1,
        [(example_package, Text ''Marked hippocampal loss.'')])"
  "execute_with_retry_json fl loads fmsg mismatch_model payload False False None example_package 1
     = (Inr (PStr ''The overlay Does Not Align with the numbers.''), 2,
        [(example_package, Text ''The overlay Does Not Align with the numbers.'')])"
  "execute_with_retry_json fl loads fmsg mismatch_model payload False False None example_package 2
     = (Inr (PStr ''Verified.''), 3, [(example_package, Text ''Verified.'')])"
  unfolding execute_with_retry_json_def attempts_list
  by (simp_all add: mismatch_model_def validate_response_def mismatch_model_clean)

lemma no_report_fails:
  "validate_response fl (\<lambda>s. None) payload True strict attempt ''No report.''
     = Inl (ValueError ''Model output is not valid JSON.'')"
  by (simp add: validate_response_def mismatch_model_clean parse_json_def
      extract_json_substring_def find_char_def)

lemma example_fallback:
  "deterministic_fallback stub_floats (example_payload ()) s1 s2 s3 = Inr example_fallback_report"
  by (simp add: deterministic_fallback_def example_payload_def roi_entry_def ALLOWED_ROIS_def
      roi_metric_def py_getitem_def py_get_def py_float_def py_int_def stub_floats_def
      example_fallback_report_def)

lemma mismatch_model_json_stage:
  "execute_with_retry_json stub_floats (\<lambda>s. None) fmsg mismatch_model (example_payload ()) True
     True trace example_package 3
     = (Inr example_fallback_report, 6,
        [(example_package, Text ''No report.''),
         (not_json_package, Text ''No report.''),
         (not_json_package, Text ''No report.'')])"
  unfolding execute_with_retry_json_def attempts_list
  by (simp add: mismatch_model_def no_report_fails MAX_RETRY_def example_package_def
      example_fallback repair_prompt_def exc_str_def not_json_package_def)

theorem mismatch_forces_warning_witness:
  "\<exists>out calls.
     run_multistage_reasoning stub_floats (\<lambda>s. None) (\<lambda>f. []) fixed_builder mismatch_model
       (example_payload ()) 0 = (Inr out, 6, calls)
   \<and> length calls = 6
   \<and> py_path out [''thinking_trace'', ''stage2_multimodal'']
       = Inr (PStr ''The overlay Does Not Align with the numbers.'')
   \<and> py_getitem example_fallback_report ''confidence_level'' = Inr (PStr ''Low (fallback)'')
   \<and> py_path out [''final_output'', ''confidence_level''] = Inr (PStr ''Low (Visual Mismatch)'')
   \<and> py_path out [''final_output'', ''warning_flag''] = Inr (PStr ''Visual-Numeric Mismatch'')
   \<and> py_getitem out ''warning_flag'' = Inr (PStr ''Visual-Numeric Mismatch'')
   \<and> py_getitem out ''confidence_level'' = Inr (PStr ''Low (Visual Mismatch)'')"
proof -
  let ?s1 = "PStr ''Marked hippocampal loss.'' :: unit py"
  let ?s3 = "PStr ''Verified.'' :: unit py"
  have v: "validate_payload (example_payload ()) = Inr ()"
    by (simp add: validate_payload_def py_contains_def example_payload_def)
  have b1: "build_numeric_prompt fixed_builder (example_payload ()) = Inr example_package"
    and b2: "build_multimodal_prompt fixed_builder (example_payload ()) ?s1 = Inr example_package"
    and b3: "build_verification_prompt fixed_builder (example_payload ()) ?s1
        (PStr (''The overlay '' @ ''Does Not Align'' @ '' with the numbers.'')) = Inr example_package"
    and b4: "build_simplification_prompt fixed_builder (example_payload ()) ?s3 = Inr example_package"
    by (simp_all add: fixed_builder_def)
  have e1: "execute_with_retry_json stub_floats (\<lambda>s. None) (\<lambda>f. []) mismatch_model
      (example_payload ()) False False None example_package 0
      = (Inr ?s1, 1, [(example_package, Text ''Marked hippocampal loss.'')])"
    by (rule mismatch_model_text_stages)
  have e2: "execute_with_retry_json stub_floats (\<lambda>s. None) (\<lambda>f. []) mismatch_model
      (example_payload ()) False False None example_package 1
      = (Inr (PStr (''The overlay '' @ ''Does Not Align'' @ '' with the numbers.'')), 2,
         [(example_package, Text ''The overlay Does Not Align with the numbers.'')])"
    using mismatch_model_text_stages(2) [of stub_floats "\<lambda>s. None" "\<lambda>f. []" "example_payload ()"]
    by simp
  have e3: "execute_with_retry_json stub_floats (\<lambda>s. None) (\<lambda>f. []) mismatch_model
      (example_payload ()) False False None example_package 2
      = (Inr ?s3, 3, [(example_package, Text ''Verified.'')])"
    by (rule mismatch_model_text_stages)
  have e4: "execute_with_retry_json stub_floats (\<lambda>s. None) (\<lambda>f. []) mismatch_model
      (example_payload ()) True True
      (Some [(''stage1'', ?s1),
             (''stage2'', PStr (''The overlay '' @ ''Does Not Align'' @ '' with the numbers.'')),
             (''stage3'', ?s3)]) example_package 3
      = (Inr example_fallback_report, 6,
        [(example_package, Text ''No report.''),
         (not_json_package, Text ''No report.''),
         (not_json_package, Text ''No report.'')])"
    by (rule mismatch_model_json_stage)
  have l: "py_lower ''Does Not Align'' \<in> set MISMATCH_TERMS"
    by (simp add: py_lower_def lower_char_def ascii_upper_def ascii_lower_def MISMATCH_TERMS_def)
  have u: "py_get example_fallback_report ''warning_flag'' PNone = Inr PNone"
    by (simp add: example_fallback_report_def py_get_def)
  have c0: "py_getitem example_fallback_report ''confidence_level'' = Inr (PStr ''Low (fallback)'')"
    by (simp add: example_fallback_report_def py_getitem_def)
  from mismatch_forces_warning [OF v b1 e1 b2 e2 b3 e3 b4 e4 l u] c0
  show ?thesis by auto
qed

subsection \<open>C9: the check of the payload\<close>

lemma validate_payload_dict:
  "validate_payload (PDict kvs)
     = (case filter (\<lambda>k. map_of kvs k = None)
               [''metadata'', ''roi_metrics'', ''progression'', ''context_images''] of
          [] \<Rightarrow> Inr ()
        | k # ks \<Rightarrow> Inl (ValueError (''Missing payload key: '' @ k)))"
  by (simp add: validate_payload_def py_contains_def)

text \<open>
  C9, as amended. Before any stage runs, the core raises
  \<^verbatim>\<open>ValueError("Missing payload key: k")\<close> for the first of the four top-level keys
  \<^verbatim>\<open>metadata\<close>, \<^verbatim>\<open>roi_metrics\<close>, \<^verbatim>\<open>progression\<close>, \<^verbatim>\<open>context_images\<close> that the payload
  lacks, and then no prompt is built and the model is not called; a payload that has the
  four keys passes this check whatever is under them.
\<close>

theorem payload_check_is_top_level:
  fixes client :: "('f, 's) model" and kvs :: "(string \<times> 'f py) list"
  shows "validate_payload (PDict kvs)
         = (case filter (\<lambda>k. map_of kvs k = None)
                   [''metadata'', ''roi_metrics'', ''progression'', ''context_images''] of
              [] \<Rightarrow> Inr ()
            | k # ks \<Rightarrow> Inl (ValueError (''Missing payload key: '' @ k)))
       \<and> (validate_payload payload = Inl e
          \<longrightarrow> run_multistage_reasoning fl loads fmsg builder client payload st0 = (Inl e, st0, []))"
  by (simp add: validate_payload_dict run_multistage_reasoning_def)

theorem payload_check_is_top_level_witness:
  "validate_payload (PDict [(''metadata'', PDict []), (''roi_metrics'', PDict [])] :: unit py)
     = Inl (ValueError ''Missing payload key: progression'')
   \<and> run_multistage_reasoning stub_floats (\<lambda>s. None) (\<lambda>f. []) fixed_builder forbidden_model
        (PDict [(''metadata'', PDict []), (''roi_metrics'', PDict [])]) 0
       = (Inl (ValueError ''Missing payload key: progression''), 0, [])"
proof -
  let ?p = "PDict [(''metadata'', PDict []), (''roi_metrics'', PDict [])] :: unit py"
  note t = payload_check_is_top_level [where kvs = "[(''metadata'', PDict []), (''roi_metrics'', PDict [])]"
      and payload = ?p and e = "ValueError ''Missing payload key: progression''"
      and fl = stub_floats and loads = "\<lambda>s. None" and fmsg = "\<lambda>f. []" and builder = fixed_builder
      and client = forbidden_model and ?st0.0 = 0]
  from t have v: "validate_payload ?p = Inl (ValueError ''Missing payload key: progression'')"
    by simp
  with t show ?thesis by blast
qed

text \<open>
  C9 as stated fails: the payload without regions (and with image paths that nothing has
  checked) passes the check of the core, the first prompt is built, and the model is called.
\<close>

theorem missing_region_counterexample:
  "validate_payload payload_without_regions = Inr ()
   \<and> roi_metric payload_without_regions ''hippocampus'' ''z_score'' = Inl (KeyError ''hippocampus'')
   \<and> length (snd (snd (run_multistage_reasoning stub_floats (\<lambda>s. None) (\<lambda>f. []) fixed_builder
        forbidden_model payload_without_regions 0))) = 3"
proof -
  have v: "validate_payload payload_without_regions = Inr ()"
    by (simp add: validate_payload_dict payload_without_regions_def)
  have r: "roi_metric payload_without_regions ''hippocampus'' ''z_score''
      = Inl (KeyError ''hippocampus'')"
    by (simp add: roi_metric_def py_getitem_def payload_without_regions_def)
  have "run_multistage_reasoning stub_floats (\<lambda>s. None) (\<lambda>f. []) fixed_builder forbidden_model
      payload_without_regions 0
    = (Inl (ValueError ''Forbidden medical claim detected: dementia''), 3,
      [(example_package, Text ''This indicates dementia.''),
       (repaired_package, Text ''This indicates dementia.''),
       (repaired_package, Text ''This indicates dementia.'')])"
    unfolding run_multistage_reasoning_def
    by (simp add: v fixed_builder_def forbidden_model_run)
  with v r show ?thesis by simp
qed

end
